theory Spec2Isabelle
  imports Main "HOL-Library.Char_ord" "HOL-Library.List_Lexorder"
begin

section \<open>JSON values and HTTP responses\<close>

text \<open>
  Every handler of the API answers with \<^verbatim>\<open>res.status(n).json({...})\<close>. A response is
  therefore a status code and a JSON value; an object is an association list of keys and
  values in the order the source writes them. Dates are carried as their numeric timestamp.
\<close>

datatype json =
    JNull
  | JBool bool
  | JNum int
  | JStr string
  | JArr "json list"
  | JObj "(string \<times> json) list"

record response =
  status :: nat
  body :: json

fun json_field :: "string \<Rightarrow> json \<Rightarrow> json option" where
  "json_field k (JObj kvs) = map_of kvs k"
| "json_field k _ = None"

fun is_JStr :: "json option \<Rightarrow> bool" where
  "is_JStr (Some (JStr s)) = True"
| "is_JStr _ = False"

definition has_string_field :: "string \<Rightarrow> response \<Rightarrow> bool" where
  "has_string_field k r = is_JStr (json_field k (body r))"

definition json_opt :: "string option \<Rightarrow> json" where
  "json_opt v = (case v of None \<Rightarrow> JNull | Some s \<Rightarrow> JStr s)"

section \<open>JavaScript string primitives used by the handlers\<close>

text \<open>
  \<^verbatim>\<open>String.prototype.trim\<close>, \<^verbatim>\<open>split(' ')\<close> and \<^verbatim>\<open>parseInt\<close> on the
  ASCII range. The number \<^verbatim>\<open>parseInt\<close> returns is a double that holds an integer;
  \<^verbatim>\<open>NaN\<close> is \<open>None\<close>.
\<close>

definition is_space :: "char \<Rightarrow> bool" where
  "is_space c = (c \<in> set [CHR '' '', CHR 0x09, CHR 0x0A, CHR 0x0B, CHR 0x0C, CHR 0x0D])"

definition js_trim :: "string \<Rightarrow> string" where
  "js_trim s = rev (dropWhile is_space (rev (dropWhile is_space s)))"

fun js_split :: "char \<Rightarrow> string \<Rightarrow> string list" where
  "js_split c [] = [[]]"
| "js_split c (x # xs) =
     (if x = c then [] # js_split c xs
      else (case js_split c xs of
              [] \<Rightarrow> [[x]]
            | p # ps \<Rightarrow> (x # p) # ps))"

text \<open>A string-or-undefined value is falsy when it is undefined or the empty string.\<close>

definition js_falsy :: "string option \<Rightarrow> bool" where
  "js_falsy v = (case v of None \<Rightarrow> True | Some s \<Rightarrow> s = [])"

definition digit_of :: "char \<Rightarrow> nat option" where
  "digit_of c =
     (let n = (of_char c :: nat) in
      if 48 \<le> n \<and> n \<le> 57 then Some (n - 48)
      else if 97 \<le> n \<and> n \<le> 122 then Some (n - 87)
      else if 65 \<le> n \<and> n \<le> 90 then Some (n - 55)
      else None)"

definition is_radix_digit :: "nat \<Rightarrow> char \<Rightarrow> bool" where
  "is_radix_digit r c = (case digit_of c of None \<Rightarrow> False | Some d \<Rightarrow> d < r)"

definition digits_value :: "nat \<Rightarrow> string \<Rightarrow> nat" where
  "digits_value r ds = foldl (\<lambda>a c. r * a + (case digit_of c of None \<Rightarrow> 0 | Some d \<Rightarrow> d)) 0 ds"

text \<open>
  The double nearest to a natural number: a number of 54 bits or more is rounded to 53
  significant bits, a tie to the even neighbour, and from \<open>2 ^ 1024\<close> on the result is
  \<^verbatim>\<open>Infinity\<close>, which the number \<open>2 ^ 1024\<close> itself stands for.
\<close>

fun bit_length :: "nat \<Rightarrow> nat" where
  "bit_length n = (if n = 0 then 0 else Suc (bit_length (n div 2)))"

declare bit_length.simps [simp del]

definition to_double :: "nat \<Rightarrow> nat" where
  "to_double n =
     (if n < 2 ^ 53 then n
      else (let e = bit_length n - 53;
                q = n div 2 ^ e;
                r = n mod 2 ^ e;
                half = 2 ^ (e - 1);
                m = (if half < r \<or> (r = half \<and> odd q) then q + 1 else q)
            in min (m * 2 ^ e) (2 ^ 1024)))"

definition is_infinite :: "int \<Rightarrow> bool" where
  "is_infinite v = (2 ^ 1024 \<le> \<bar>v\<bar>)"



definition parse_radix :: "nat \<Rightarrow> string \<Rightarrow> nat option" where
  "parse_radix r s =
     (let ds = takeWhile (is_radix_digit r) s
      in if ds = [] then None else Some (to_double (digits_value r ds)))"

definition parse_unsigned :: "string \<Rightarrow> nat option" where
  "parse_unsigned s =
     (case s of
        a # b # rest \<Rightarrow>
          (if a = CHR ''0'' \<and> (b = CHR ''x'' \<or> b = CHR ''X'') then parse_radix 16 rest
           else parse_radix 10 s)
      | _ \<Rightarrow> parse_radix 10 s)"

definition parseInt :: "string \<Rightarrow> int option" where
  "parseInt s =
     (case dropWhile is_space s of
        [] \<Rightarrow> None
      | c # cs \<Rightarrow>
          (if c = CHR ''-'' then map_option (\<lambda>n. - int n) (parse_unsigned cs)
           else if c = CHR ''+'' then map_option int (parse_unsigned cs)
           else map_option int (parse_unsigned (c # cs))))"

section \<open>Authentication (middleware/auth.js)\<close>

record user =
  u_id :: nat
  u_username :: string
  u_password :: string
  u_role :: string

definition users :: "user list" where
  "users = [\<lparr>u_id = 1, u_username = ''admin'',
             u_password = ''$2a$10$92IXUNpkjO0rOQ5byMi.Ye4oKoEa3Ro9llC/.og/at2.uheWG/igi'',
             u_role = ''admin''\<rparr>]"

record claims =
  c_id :: nat
  c_username :: string
  c_role :: string

text \<open>
  The three errors \<^verbatim>\<open>jwt.verify\<close> reports. The library is not part of the repository:
  the verifier (with the secret it closes over) is a parameter \<open>verify\<close> of the middleware,
  and so are \<^verbatim>\<open>bcrypt.compare\<close> and \<^verbatim>\<open>jwt.sign\<close> for login, where \<open>None\<close> means
  that the call throws.
\<close>

datatype jwt_error = TokenExpiredError | JsonWebTokenError | NotBeforeError

record request =
  req_method :: string
  req_authorization :: "string option"
  req_user :: "claims option"

definition no_token_response :: response where
  "no_token_response =
     \<lparr>status = 401,
      body = JObj [(''error'', JStr ''Access denied. No token provided.''),
                   (''code'', JStr ''NO_TOKEN'')]\<rparr>"

definition invalid_token_response :: response where
  "invalid_token_response =
     \<lparr>status = 403,
      body = JObj [(''error'', JStr ''Access denied. Invalid token.''),
                   (''code'', JStr ''INVALID_TOKEN'')]\<rparr>"

text \<open>\<^verbatim>\<open>authHeader && authHeader.split(' ')[1]\<close>\<close>

definition bearer_token :: "string option \<Rightarrow> string option" where
  "bearer_token authHeader =
     (case authHeader of
        None \<Rightarrow> None
      | Some h \<Rightarrow>
          (if h = [] then Some []
           else (case js_split CHR '' '' h of
                   _ # t # _ \<Rightarrow> Some t
                 | _ \<Rightarrow> None)))"

text \<open>
  The header read character by character: what stands between its first space and the
  next one (or its end), and whether that is nothing at all. The word before the first
  space, the scheme, plays no part.
\<close>

definition second_word :: "string \<Rightarrow> string" where
  "second_word h =
     takeWhile (\<lambda>c. c \<noteq> CHR '' '') (drop 1 (dropWhile (\<lambda>c. c \<noteq> CHR '' '') h))"

definition second_word_missing :: "string \<Rightarrow> bool" where
  "second_word_missing h = (second_word h = [])"

text \<open>
  A middleware either answers itself, leaving the state \<open>st\<close> behind the protected
  handler untouched, or hands the request to \<open>next\<close>.
\<close>

definition authenticateToken ::
  "(string \<Rightarrow> jwt_error + claims) \<Rightarrow> request \<Rightarrow>
   (request \<Rightarrow> 's \<Rightarrow> response \<times> 's) \<Rightarrow> 's \<Rightarrow> response \<times> 's" where
  "authenticateToken verify req next st =
     (let token = bearer_token (req_authorization req) in
      if js_falsy token then (no_token_response, st)
      else (case verify (the token) of
              Inl err \<Rightarrow> (invalid_token_response, st)
            | Inr u \<Rightarrow> next (req\<lparr>req_user := Some u\<rparr>) st))"

definition requireAuth ::
  "(string \<Rightarrow> jwt_error + claims) \<Rightarrow> request \<Rightarrow>
   (request \<Rightarrow> 's \<Rightarrow> response \<times> 's) \<Rightarrow> 's \<Rightarrow> response \<times> 's" where
  "requireAuth verify req next st =
     (if req_method req = ''GET'' then next req st
      else authenticateToken verify req next st)"

text \<open>
  The two fields of the login body are whatever JSON the client sent, or undefined.
  \<open>js_not\<close> is the operator \<^verbatim>\<open>!\<close> on such a value.
\<close>

record login_body =
  lb_username :: "json option"
  lb_password :: "json option"

definition js_not :: "json option \<Rightarrow> bool" where
  "js_not v =
     (case v of
        None \<Rightarrow> True
      | Some JNull \<Rightarrow> True
      | Some (JBool b) \<Rightarrow> \<not> b
      | Some (JNum n) \<Rightarrow> n = 0
      | Some (JStr s) \<Rightarrow> s = []
      | Some (JArr xs) \<Rightarrow> False
      | Some (JObj kvs) \<Rightarrow> False)"

definition invalid_credentials_response :: response where
  "invalid_credentials_response =
     \<lparr>status = 401,
      body = JObj [(''error'', JStr ''Invalid credentials''),
                   (''code'', JStr ''INVALID_CREDENTIALS'')]\<rparr>"

definition login_error_response :: response where
  "login_error_response =
     \<lparr>status = 500,
      body = JObj [(''error'', JStr ''Internal server error''),
                   (''code'', JStr ''LOGIN_ERROR'')]\<rparr>"

text \<open>
  \<^verbatim>\<open>u.username === username\<close> holds only of a string; \<open>compare\<close> receives the
  password as it came, and \<open>None\<close> from it or from \<open>sign\<close> sends the control to the
  \<^verbatim>\<open>catch\<close> block.
\<close>

text \<open>
  What is known of \<^verbatim>\<open>bcrypt.compare\<close> of \<^verbatim>\<open>bcryptjs\<close> whatever the hashes are: it
  rejects data that is not a string as illegal arguments, and otherwise answers whether
  the string matches the hash, a relation \<open>matches\<close> left open here.
\<close>

definition bcrypt_compare :: "(string \<Rightarrow> string \<Rightarrow> bool) \<Rightarrow> json \<Rightarrow> string \<Rightarrow> bool option" where
  "bcrypt_compare matches data hash =
     (case data of JStr s \<Rightarrow> Some (matches s hash) | _ \<Rightarrow> None)"

definition login ::
  "(json \<Rightarrow> string \<Rightarrow> bool option) \<Rightarrow> (claims \<Rightarrow> string option) \<Rightarrow>
   login_body \<Rightarrow> response" where
  "login compare sign b =
     (if js_not (lb_username b) \<or> js_not (lb_password b) then
        \<lparr>status = 400,
         body = JObj [(''error'', JStr ''Username and password are required''),
                      (''code'', JStr ''MISSING_CREDENTIALS'')]\<rparr>
      else
        (case find (\<lambda>u. lb_username b = Some (JStr (u_username u))) users of
           None \<Rightarrow> invalid_credentials_response
         | Some usr \<Rightarrow>
             (case compare (the (lb_password b)) (u_password usr) of
                None \<Rightarrow> login_error_response
              | Some False \<Rightarrow> invalid_credentials_response
              | Some True \<Rightarrow>
                  (case sign \<lparr>c_id = u_id usr, c_username = u_username usr, c_role = u_role usr\<rparr> of
                     None \<Rightarrow> login_error_response
                   | Some token \<Rightarrow>
                       \<lparr>status = 200,
                        body = JObj [(''message'', JStr ''Login successful''),
                                     (''token'', JStr token),
                                     (''user'', JObj [(''id'', JNum (int (u_id usr))),
                                                      (''username'', JStr (u_username usr)),
                                                      (''role'', JStr (u_role usr))])]\<rparr>))))"

section \<open>Errors (middleware/errorHandler.js)\<close>

text \<open>
  A thrown JavaScript error with the properties \<^verbatim>\<open>errorHandler\<close> reads. \<open>err_errors\<close>
  holds the messages of \<^verbatim>\<open>Object.values(err.errors)\<close> when the property exists.
  The text of a stack trace is not modelled: \<^verbatim>\<open>AppError\<close> leaves it empty.
\<close>

record js_error =
  err_name :: string
  err_message :: string
  err_statusCode :: "nat option"
  err_code :: "string option"
  err_isOperational :: bool
  err_errors :: "string list option"
  err_stack :: string

definition AppError :: "string \<Rightarrow> nat \<Rightarrow> string option \<Rightarrow> js_error" where
  "AppError message statusCode code =
     \<lparr>err_name = ''Error'', err_message = message, err_statusCode = Some statusCode,
      err_code = code, err_isOperational = True, err_errors = None, err_stack = []\<rparr>"

text \<open>What the ORM and the runtime throw: no status code, not operational.\<close>

definition PrismaKnownError :: "string \<Rightarrow> string \<Rightarrow> js_error" where
  "PrismaKnownError code message =
     \<lparr>err_name = ''PrismaClientKnownRequestError'', err_message = message,
      err_statusCode = None, err_code = Some code, err_isOperational = False,
      err_errors = None, err_stack = []\<rparr>"

definition PrismaValidationError :: "string \<Rightarrow> js_error" where
  "PrismaValidationError message =
     \<lparr>err_name = ''PrismaClientValidationError'', err_message = message,
      err_statusCode = None, err_code = None, err_isOperational = False,
      err_errors = None, err_stack = []\<rparr>"


definition js_join :: "string \<Rightarrow> string list \<Rightarrow> string" where
  "js_join sep xs = (case xs of [] \<Rightarrow> [] | x # rest \<Rightarrow> foldl (\<lambda>a b. a @ sep @ b) x rest)"

text \<open>
  \<^verbatim>\<open>errorHandler\<close>, branch by branch in the source's order; every test reads the
  original \<open>err\<close>, every assignment replaces \<open>error\<close>. The result is \<open>None\<close> when the
  handler itself throws (\<^verbatim>\<open>Object.values\<close> of a missing \<^verbatim>\<open>err.errors\<close>) and so
  sends no JSON. \<open>node_env\<close> is \<^verbatim>\<open>process.env.NODE_ENV\<close>.
\<close>

definition errorHandler :: "string \<Rightarrow> js_error \<Rightarrow> response option" where
  "errorHandler node_env err =
     (let error0 = err;
          error1 =
            (if js_falsy (err_code err) then error0
             else if err_code err = Some ''P2002'' then
               AppError ''Duplicate field value'' 400 (Some ''DUPLICATE_ENTRY'')
             else if err_code err = Some ''P2025'' then
               AppError ''Record not found'' 404 (Some ''NOT_FOUND'')
             else if err_code err = Some ''P2003'' then
               AppError ''Foreign key constraint failed'' 400 (Some ''FOREIGN_KEY_CONSTRAINT'')
             else AppError ''Database error'' 500 (Some ''DATABASE_ERROR''));
          error2 =
            (if err_name err = ''JsonWebTokenError''
             then AppError ''Invalid token'' 401 (Some ''INVALID_TOKEN'') else error1);
          error3 =
            (if err_name err = ''TokenExpiredError''
             then AppError ''Token expired'' 401 (Some ''TOKEN_EXPIRED'') else error2)
      in
      if err_name err = ''ValidationError'' \<and> err_errors err = None then None
      else
        (let error4 =
               (if err_name err = ''ValidationError''
                then AppError (js_join '', '' (the (err_errors err))) 400 (Some ''VALIDATION_ERROR'')
                else error3);
             error5 =
               (if err_name err = ''CastError''
                then AppError ''Invalid ID format'' 400 (Some ''INVALID_ID'') else error4);
             error6 =
               (if \<not> err_isOperational error5
                then AppError ''Something went wrong'' 500 (Some ''INTERNAL_ERROR'') else error5)
         in Some
              \<lparr>status = (case err_statusCode error6 of
                           None \<Rightarrow> 500
                         | Some n \<Rightarrow> if n = 0 then 500 else n),
               body = JObj
                 ([(''error'', JStr (err_message error6)),
                   (''code'', JStr (if js_falsy (err_code error6) then ''INTERNAL_ERROR''
                                    else the (err_code error6)))]
                  @ (if node_env = ''development'' then [(''stack'', JStr (err_stack err))]
                     else []))\<rparr>))"

text \<open>
  Modelled from the spec: \<^verbatim>\<open>server.js\<close>, which mounts the routers and installs the
  error-handling middleware, is not among the sources. By section 7 of the specification
  every error is logged with its request context and then translated to the response,
  which is what \<^verbatim>\<open>errorHandler\<close> does. So the error that a handler throws (\<open>Inl\<close>),
  and that \<^verbatim>\<open>asyncHandler(fn)\<close> passes to \<^verbatim>\<open>next\<close>, is answered by
  \<^verbatim>\<open>errorHandler\<close>.
\<close>

definition asyncHandler :: "string \<Rightarrow> (js_error + response) \<times> 's \<Rightarrow> response option \<times> 's" where
  "asyncHandler node_env r =
     (case fst r of
        Inl err \<Rightarrow> (errorHandler node_env err, snd r)
      | Inr resp \<Rightarrow> (Some resp, snd r))"

section \<open>The store\<close>

text \<open>
  Modelled from the spec: the schema file of the ORM is not among the sources. Section 3
  of the specification and the README give four tables, children referring to their
  profile by a foreign key with cascading delete, \<open>email\<close> unique over the profiles, and
  integer primary keys that the database assigns. A table is the list of its rows in
  insertion order; a time stamp is a number.
\<close>

record profile =
  p_id :: nat
  p_name :: string
  p_email :: string
  p_education :: "string option"
  p_githubUrl :: "string option"
  p_linkedinUrl :: "string option"
  p_portfolioUrl :: "string option"
  p_createdAt :: nat
  p_updatedAt :: nat

record skill =
  s_id :: nat
  s_profileId :: nat
  s_skillName :: string
  s_proficiencyLevel :: int

record project =
  j_id :: nat
  j_profileId :: nat
  j_title :: string
  j_description :: string
  j_links :: "(string \<times> string) list"
  j_createdAt :: nat

record work =
  w_id :: nat
  w_profileId :: nat
  w_company :: string
  w_position :: string
  w_startDate :: string
  w_endDate :: "string option"
  w_description :: "string option"

record db =
  profiles :: "profile list"
  skills :: "skill list"
  projects :: "project list"
  workExperience :: "work list"
  nextProfileId :: nat
  nextSkillId :: nat
  nextProjectId :: nat
  nextWorkId :: nat

definition empty_db :: db where
  "empty_db = \<lparr>profiles = [], skills = [], projects = [], workExperience = [],
               nextProfileId = 1, nextSkillId = 1, nextProjectId = 1, nextWorkId = 1\<rparr>"

subsection \<open>ORM calls\<close>

text \<open>
  Rows handed to a create call carry a placeholder id (and creation time), which the
  database overwrites.
\<close>

definition skill_createMany :: "skill list \<Rightarrow> db \<Rightarrow> db" where
  "skill_createMany rows d =
     d\<lparr>skills := skills d @ map (\<lambda>(i, r). r\<lparr>s_id := i\<rparr>) (enumerate (nextSkillId d) rows),
       nextSkillId := nextSkillId d + length rows\<rparr>"

definition project_createMany :: "nat \<Rightarrow> project list \<Rightarrow> db \<Rightarrow> db" where
  "project_createMany now rows d =
     d\<lparr>projects := projects d
          @ map (\<lambda>(i, r). r\<lparr>j_id := i, j_createdAt := now\<rparr>) (enumerate (nextProjectId d) rows),
       nextProjectId := nextProjectId d + length rows\<rparr>"

definition work_createMany :: "work list \<Rightarrow> db \<Rightarrow> db" where
  "work_createMany rows d =
     d\<lparr>workExperience := workExperience d
          @ map (\<lambda>(i, r). r\<lparr>w_id := i\<rparr>) (enumerate (nextWorkId d) rows),
       nextWorkId := nextWorkId d + length rows\<rparr>"

definition skill_deleteMany :: "nat \<Rightarrow> db \<Rightarrow> db" where
  "skill_deleteMany pid d = d\<lparr>skills := filter (\<lambda>r. s_profileId r \<noteq> pid) (skills d)\<rparr>"

definition project_deleteMany :: "nat \<Rightarrow> db \<Rightarrow> db" where
  "project_deleteMany pid d = d\<lparr>projects := filter (\<lambda>r. j_profileId r \<noteq> pid) (projects d)\<rparr>"

definition work_deleteMany :: "nat \<Rightarrow> db \<Rightarrow> db" where
  "work_deleteMany pid d =
     d\<lparr>workExperience := filter (\<lambda>r. w_profileId r \<noteq> pid) (workExperience d)\<rparr>"

text \<open>\<^verbatim>\<open>findFirst({ where: { email } })\<close>\<close>

definition profile_findFirst_email :: "string \<Rightarrow> db \<Rightarrow> profile option" where
  "profile_findFirst_email e d = find (\<lambda>p. p_email p = e) (profiles d)"

text \<open>
  \<^verbatim>\<open>findFirst({ orderBy: { createdAt: 'desc' } })\<close>: a row of greatest creation time,
  the earliest inserted one among equals.
\<close>

fun newest :: "profile list \<Rightarrow> profile option" where
  "newest [] = None"
| "newest (p # ps) =
     (case newest ps of
        None \<Rightarrow> Some p
      | Some q \<Rightarrow> if p_createdAt p < p_createdAt q then Some q else Some p)"

definition profile_findFirst_newest :: "db \<Rightarrow> profile option" where
  "profile_findFirst_newest d = newest (profiles d)"

text \<open>
  Modelled from the spec: the unique index on \<open>email\<close> is declared in the schema file,
  which is not among the sources (section 3: email unique across profiles).
  \<^verbatim>\<open>profile.create\<close> with nested \<^verbatim>\<open>create\<close> lists is one statement, which inserts the
  profile and its children or, when the email is already stored, fails on the unique
  index (P2002) and inserts nothing. An undefined child list inserts no children.
\<close>

definition profile_create ::
  "nat \<Rightarrow> profile \<Rightarrow> skill list option \<Rightarrow> project list option \<Rightarrow> work list option \<Rightarrow>
   db \<Rightarrow> js_error + profile \<times> db" where
  "profile_create now row sk pj wk d =
     (if p_email row \<in> set (map p_email (profiles d)) then
        Inl (PrismaKnownError ''P2002'' ''Unique constraint failed on the fields: (`email`)'')
      else
        (let pid = nextProfileId d;
             p = row\<lparr>p_id := pid, p_createdAt := now, p_updatedAt := now\<rparr>;
             d1 = d\<lparr>profiles := profiles d @ [p], nextProfileId := pid + 1\<rparr>;
             d2 = (case sk of None \<Rightarrow> d1
                   | Some rows \<Rightarrow> skill_createMany (map (\<lambda>r. r\<lparr>s_profileId := pid\<rparr>) rows) d1);
             d3 = (case pj of None \<Rightarrow> d2
                   | Some rows \<Rightarrow>
                       project_createMany now (map (\<lambda>r. r\<lparr>j_profileId := pid\<rparr>) rows) d2);
             d4 = (case wk of None \<Rightarrow> d3
                   | Some rows \<Rightarrow> work_createMany (map (\<lambda>r. r\<lparr>w_profileId := pid\<rparr>) rows) d3)
         in Inr (p, d4)))"

text \<open>
  Modelled from the spec: the unique index on \<open>email\<close> is declared in the schema file,
  which is not among the sources (section 3: email unique across profiles).
  \<^verbatim>\<open>profile.update({ where: { id }, data })\<close> rewrites the row with that id; an
  undefined field of \<open>data\<close> keeps the stored value. It fails with P2025 when no row has
  the id and with P2002 when another row holds the new email.
\<close>

definition profile_update ::
  "nat \<Rightarrow> nat \<Rightarrow> string \<Rightarrow> string \<Rightarrow> string option \<Rightarrow> string option \<Rightarrow> string option \<Rightarrow>
   string option \<Rightarrow> db \<Rightarrow> js_error + db" where
  "profile_update now pid name email education githubUrl linkedinUrl portfolioUrl d =
     (let before = takeWhile (\<lambda>p. p_id p \<noteq> pid) (profiles d);
          rest = dropWhile (\<lambda>p. p_id p \<noteq> pid) (profiles d)
      in case rest of
           [] \<Rightarrow> Inl (PrismaKnownError ''P2025'' ''Record to update not found.'')
         | r # after \<Rightarrow>
             (if email \<in> set (map p_email (before @ after)) then
                Inl (PrismaKnownError ''P2002''
                       ''Unique constraint failed on the fields: (`email`)'')
              else
                Inr (d\<lparr>profiles := before @
                      [r\<lparr>p_name := name, p_email := email,
                         p_education := (case education of None \<Rightarrow> p_education r | v \<Rightarrow> v),
                         p_githubUrl := (case githubUrl of None \<Rightarrow> p_githubUrl r | v \<Rightarrow> v),
                         p_linkedinUrl := (case linkedinUrl of None \<Rightarrow> p_linkedinUrl r | v \<Rightarrow> v),
                         p_portfolioUrl :=
                           (case portfolioUrl of None \<Rightarrow> p_portfolioUrl r | v \<Rightarrow> v),
                         p_updatedAt := now\<rparr>] @ after\<rparr>)))"

text \<open>
  Modelled from the spec: the cascade is declared in the schema file, which is not among
  the sources (section 3: a profile owns its skills, projects and work-experience rows,
  cascade delete). \<^verbatim>\<open>profile.deleteMany({})\<close> deletes every profile and its children
  with it; the result is the number of profiles deleted.
\<close>

definition profile_deleteMany :: "db \<Rightarrow> nat \<times> db" where
  "profile_deleteMany d =
     (let ids = set (map p_id (profiles d))
      in (length (profiles d),
          d\<lparr>profiles := [],
            skills := filter (\<lambda>r. s_profileId r \<notin> ids) (skills d),
            projects := filter (\<lambda>r. j_profileId r \<notin> ids) (projects d),
            workExperience := filter (\<lambda>r. w_profileId r \<notin> ids) (workExperience d)\<rparr>))"

definition project_findUnique :: "int \<Rightarrow> db \<Rightarrow> project option" where
  "project_findUnique i d = find (\<lambda>r. int (j_id r) = i) (projects d)"

definition project_delete :: "int \<Rightarrow> db \<Rightarrow> js_error + db" where
  "project_delete i d =
     (if i \<in> set (map (\<lambda>r. int (j_id r)) (projects d))
      then Inr (d\<lparr>projects := filter (\<lambda>r. int (j_id r) \<noteq> i) (projects d)\<rparr>)
      else Inl (PrismaKnownError ''P2025'' ''Record to delete does not exist.''))"

definition work_findUnique :: "int \<Rightarrow> db \<Rightarrow> work option" where
  "work_findUnique i d = find (\<lambda>r. int (w_id r) = i) (workExperience d)"

definition work_delete :: "int \<Rightarrow> db \<Rightarrow> js_error + db" where
  "work_delete i d =
     (if i \<in> set (map (\<lambda>r. int (w_id r)) (workExperience d))
      then Inr (d\<lparr>workExperience := filter (\<lambda>r. int (w_id r) \<noteq> i) (workExperience d)\<rparr>)
      else Inl (PrismaKnownError ''P2025'' ''Record to delete does not exist.''))"

section \<open>Profile routes\<close>

text \<open>
  The request body as the handlers destructure it, after \<^verbatim>\<open>validateProfile\<close> has
  accepted it: \<open>name\<close> and \<open>email\<close> are present, every other field may be undefined
  (\<open>None\<close>). A skill is a string or an object with a name and an optional level; projects
  and work entries have the fields of the API schema.
\<close>

datatype skill_input = SkillString string | SkillObject string "int option"

record project_input =
  pi_title :: string
  pi_description :: string
  pi_links :: "(string \<times> string) list option"

record work_input =
  wi_company :: string
  wi_position :: string
  wi_start_date :: string
  wi_end_date :: "string option"
  wi_description :: "string option"

record profile_body =
  b_name :: string
  b_email :: string
  b_education :: "string option"
  b_skills :: "skill_input list option"
  b_projects :: "project_input list option"
  b_workExperience :: "work_input list option"
  b_github_url :: "string option"
  b_linkedin_url :: "string option"
  b_portfolio_url :: "string option"

text \<open>
  The three \<^verbatim>\<open>map\<close> callbacks shared by POST and PUT. \<^verbatim>\<open>skill.level || 1\<close> turns an
  undefined or zero level into 1, \<^verbatim>\<open>project.links || []\<close> an undefined list into the
  empty one.
\<close>

definition skill_row :: "nat \<Rightarrow> skill_input \<Rightarrow> skill" where
  "skill_row pid sk =
     \<lparr>s_id = 0, s_profileId = pid,
      s_skillName = (case sk of SkillString n \<Rightarrow> n | SkillObject n l \<Rightarrow> n),
      s_proficiencyLevel =
        (case sk of
           SkillString n \<Rightarrow> 1
         | SkillObject n l \<Rightarrow> (case l of None \<Rightarrow> 1 | Some v \<Rightarrow> if v = 0 then 1 else v))\<rparr>"

definition project_row :: "nat \<Rightarrow> project_input \<Rightarrow> project" where
  "project_row pid pj =
     \<lparr>j_id = 0, j_profileId = pid, j_title = pi_title pj, j_description = pi_description pj,
      j_links = (case pi_links pj of None \<Rightarrow> [] | Some ls \<Rightarrow> ls), j_createdAt = 0\<rparr>"

definition work_row :: "nat \<Rightarrow> work_input \<Rightarrow> work" where
  "work_row pid wk =
     \<lparr>w_id = 0, w_profileId = pid, w_company = wi_company wk, w_position = wi_position wk,
      w_startDate = wi_start_date wk, w_endDate = wi_end_date wk,
      w_description = wi_description wk\<rparr>"

definition message_response :: "nat \<Rightarrow> string \<Rightarrow> response" where
  "message_response st msg = \<lparr>status = st, body = JObj [(''message'', JStr msg)]\<rparr>"

text \<open>
  The handlers proper: \<open>Inl\<close> is a thrown error, and the second component is the store
  the request leaves behind. \<open>now\<close> is the time of the request.
\<close>

definition post_profile :: "nat \<Rightarrow> profile_body \<Rightarrow> db \<Rightarrow> (js_error + response) \<times> db" where
  "post_profile now b d =
     (case profile_findFirst_email (b_email b) d of
        Some existingProfile \<Rightarrow>
          (Inl (AppError ''Profile with this email already exists. Use PUT to update.'' 409
                  (Some ''PROFILE_EXISTS'')), d)
      | None \<Rightarrow>
          (case profile_create now
                  \<lparr>p_id = 0, p_name = b_name b, p_email = b_email b,
                   p_education = b_education b, p_githubUrl = b_github_url b,
                   p_linkedinUrl = b_linkedin_url b, p_portfolioUrl = b_portfolio_url b,
                   p_createdAt = 0, p_updatedAt = 0\<rparr>
                  (map_option (map (skill_row 0)) (b_skills b))
                  (map_option (map (project_row 0)) (b_projects b))
                  (map_option (map (work_row 0)) (b_workExperience b)) d of
             Inl err \<Rightarrow> (Inl err, d)
           | Inr (p, d') \<Rightarrow>
               (Inr \<lparr>status = 201,
                     body = JObj [(''message'', JStr ''Profile created successfully''),
                                  (''profileId'', JNum (int (p_id p)))]\<rparr>, d')))"

text \<open>
  The callback of \<^verbatim>\<open>prisma.$transaction\<close> in PUT: the first failing statement aborts
  it, and the caller then keeps the store it started from.
\<close>

definition put_transaction :: "nat \<Rightarrow> nat \<Rightarrow> profile_body \<Rightarrow> db \<Rightarrow> js_error + db" where
  "put_transaction now pid b d =
     (case profile_update now pid (b_name b) (b_email b) (b_education b) (b_github_url b)
             (b_linkedin_url b) (b_portfolio_url b) d of
        Inl err \<Rightarrow> Inl err
      | Inr d1 \<Rightarrow>
          (let d2 = skill_deleteMany pid d1;
               d3 = project_deleteMany pid d2;
               d4 = work_deleteMany pid d3;
               d5 = (case b_skills b of None \<Rightarrow> d4
                     | Some xs \<Rightarrow> skill_createMany (map (skill_row pid) xs) d4);
               d6 = (case b_projects b of None \<Rightarrow> d5
                     | Some xs \<Rightarrow> project_createMany now (map (project_row pid) xs) d5);
               d7 = (case b_workExperience b of None \<Rightarrow> d6
                     | Some xs \<Rightarrow> work_createMany (map (work_row pid) xs) d6)
           in Inr d7))"

definition put_profile :: "nat \<Rightarrow> profile_body \<Rightarrow> db \<Rightarrow> (js_error + response) \<times> db" where
  "put_profile now b d =
     (case profile_findFirst_newest d of
        None \<Rightarrow> (Inl (AppError ''Profile not found'' 404 (Some ''PROFILE_NOT_FOUND'')), d)
      | Some existingProfile \<Rightarrow>
          (case put_transaction now (p_id existingProfile) b d of
             Inl err \<Rightarrow> (Inl err, d)
           | Inr d' \<Rightarrow> (Inr (message_response 200 ''Profile updated successfully''), d')))"

definition delete_profile :: "db \<Rightarrow> (js_error + response) \<times> db" where
  "delete_profile d =
     (let result = profile_deleteMany d
      in if fst result = 0
         then (Inl (AppError ''Profile not found'' 404 (Some ''PROFILE_NOT_FOUND'')), snd result)
         else (Inr (message_response 200 ''Profile deleted successfully''), snd result))"

definition delete_project :: "string \<Rightarrow> db \<Rightarrow> (js_error + response) \<times> db" where
  "delete_project ident d =
     (case parseInt ident of
        None \<Rightarrow> (Inl (AppError ''Invalid project ID'' 400 (Some ''INVALID_PROJECT_ID'')), d)
      | Some projectId \<Rightarrow>
          (case project_findUnique projectId d of
             None \<Rightarrow> (Inl (AppError ''Project not found'' 404 (Some ''PROJECT_NOT_FOUND'')), d)
           | Some project \<Rightarrow>
               (case project_delete projectId d of
                  Inl err \<Rightarrow> (Inl err, d)
                | Inr d' \<Rightarrow> (Inr (message_response 200 ''Project deleted successfully''), d'))))"

definition delete_work :: "string \<Rightarrow> db \<Rightarrow> (js_error + response) \<times> db" where
  "delete_work ident d =
     (case parseInt ident of
        None \<Rightarrow> (Inl (AppError ''Invalid work experience ID'' 400 (Some ''INVALID_WORK_ID'')), d)
      | Some workId \<Rightarrow>
          (case work_findUnique workId d of
             None \<Rightarrow> (Inl (AppError ''Work experience not found'' 404 (Some ''WORK_NOT_FOUND'')), d)
           | Some w \<Rightarrow>
               (case work_delete workId d of
                  Inl err \<Rightarrow> (Inl err, d)
                | Inr d' \<Rightarrow>
                    (Inr (message_response 200 ''Work experience deleted successfully''), d'))))"

text \<open>The routes as mounted: each handler wrapped in \<^verbatim>\<open>asyncHandler\<close>.\<close>

definition route_post_profile ::
  "string \<Rightarrow> nat \<Rightarrow> profile_body \<Rightarrow> db \<Rightarrow> response option \<times> db" where
  "route_post_profile node_env now b d = asyncHandler node_env (post_profile now b d)"

definition route_put_profile ::
  "string \<Rightarrow> nat \<Rightarrow> profile_body \<Rightarrow> db \<Rightarrow> response option \<times> db" where
  "route_put_profile node_env now b d = asyncHandler node_env (put_profile now b d)"

definition route_delete_profile :: "string \<Rightarrow> db \<Rightarrow> response option \<times> db" where
  "route_delete_profile node_env d = asyncHandler node_env (delete_profile d)"

definition route_delete_project :: "string \<Rightarrow> string \<Rightarrow> db \<Rightarrow> response option \<times> db" where
  "route_delete_project node_env ident d = asyncHandler node_env (delete_project ident d)"

definition route_delete_work :: "string \<Rightarrow> string \<Rightarrow> db \<Rightarrow> response option \<times> db" where
  "route_delete_work node_env ident d = asyncHandler node_env (delete_work ident d)"

text \<open>The mutating operations of the API, and the store after one of them.\<close>

datatype api_op =
    PostProfile profile_body
  | PutProfile profile_body
  | DeleteProfile
  | DeleteProject string
  | DeleteWork string

fun api_step :: "string \<Rightarrow> nat \<Rightarrow> api_op \<Rightarrow> db \<Rightarrow> db" where
  "api_step node_env now (PostProfile b) d = snd (route_post_profile node_env now b d)"
| "api_step node_env now (PutProfile b) d = snd (route_put_profile node_env now b d)"
| "api_step node_env now DeleteProfile d = snd (route_delete_profile node_env d)"
| "api_step node_env now (DeleteProject i) d = snd (route_delete_project node_env i d)"
| "api_step node_env now (DeleteWork i) d = snd (route_delete_work node_env i d)"

definition emails_unique :: "db \<Rightarrow> bool" where
  "emails_unique d = distinct (map p_email (profiles d))"

text \<open>
  The integrity the database keeps by itself: profile ids are pairwise different and below
  the next id to assign, and every project row refers to a stored profile.
\<close>

definition keys_ok :: "db \<Rightarrow> bool" where
  "keys_ok d =
     (distinct (map p_id (profiles d))
      \<and> list_all (\<lambda>i. i < nextProfileId d) (map p_id (profiles d))
      \<and> set (map j_profileId (projects d)) \<subseteq> set (map p_id (profiles d)))"

section \<open>Query validation and pagination (middleware/validation.js)\<close>

record query =
  q_q :: "string option"
  q_type :: "string option"
  q_limit :: "string option"
  q_offset :: "string option"
  q_skill :: "string option"







definition validation_failed_response :: "json list \<Rightarrow> response" where
  "validation_failed_response errors =
     \<lparr>status = 400,
      body = JObj [(''error'', JStr ''Validation failed''),
                   (''code'', JStr ''VALIDATION_ERROR''),
                   (''details'', JArr errors)]\<rparr>"





section \<open>Query routes\<close>

text \<open>
  The ORM's filter \<^verbatim>\<open>{ contains: s, mode: 'insensitive' }\<close>: \<open>s\<close> occurs in the
  field when letter case is ignored (ASCII letters here). A field that is NULL never
  matches.
\<close>

definition lower_char :: "char \<Rightarrow> char" where
  "lower_char c =
     (let n = (of_char c :: nat) in if 65 \<le> n \<and> n \<le> 90 then char_of (n + 32) else c)"

fun starts_with :: "string \<Rightarrow> string \<Rightarrow> bool" where
  "starts_with s [] = True"
| "starts_with [] (p # ps) = False"
| "starts_with (c # cs) (p # ps) = (c = p \<and> starts_with cs ps)"

fun contains_str :: "string \<Rightarrow> string \<Rightarrow> bool" where
  "contains_str [] needle = (needle = [])"
| "contains_str (c # cs) needle = (starts_with (c # cs) needle \<or> contains_str cs needle)"

definition contains_insensitive :: "string \<Rightarrow> string \<Rightarrow> bool" where
  "contains_insensitive field s = contains_str (map lower_char field) (map lower_char s)"

definition contains_insensitive_opt :: "string option \<Rightarrow> string \<Rightarrow> bool" where
  "contains_insensitive_opt field s =
     (case field of None \<Rightarrow> False | Some f \<Rightarrow> contains_insensitive f s)"

text \<open>
  \<^verbatim>\<open>take\<close> and \<^verbatim>\<open>skip\<close> of \<^verbatim>\<open>findMany\<close> on the rows that match, already ordered.
  The ORM rejects \<^verbatim>\<open>NaN\<close>, a number that does not fit a signed 64-bit integer and a
  negative \<^verbatim>\<open>skip\<close>; a negative \<^verbatim>\<open>take\<close> counts from the end of the list.
\<close>

definition fits_int64 :: "int \<Rightarrow> bool" where
  "fits_int64 v = (- (2 ^ 63) \<le> v \<and> v < 2 ^ 63)"

definition find_page :: "int option \<Rightarrow> int option \<Rightarrow> 'a list \<Rightarrow> js_error + 'a list" where
  "find_page tk sk rows =
     (case tk of
        None \<Rightarrow> Inl (PrismaValidationError ''Invalid value for argument `take`'')
      | Some t \<Rightarrow>
          (case sk of
             None \<Rightarrow> Inl (PrismaValidationError ''Invalid value for argument `skip`'')
           | Some k \<Rightarrow>
               (if fits_int64 t \<and> fits_int64 k then
                  (if k < 0 then
                     Inl (PrismaValidationError ''Invalid value for argument `skip`'')
                   else if 0 \<le> t then Inr (take (nat t) (drop (nat k) rows))
                   else Inr (rev (take (nat (- t)) (drop (nat k) (rev rows)))))
                else
                  Inl (PrismaValidationError
                         ''Unable to fit value into a 64-bit signed integer''))))"

definition order_desc :: "('a \<Rightarrow> 'k::linorder) \<Rightarrow> 'a list \<Rightarrow> 'a list" where
  "order_desc key rows = rev (sort_key key rows)"

definition links_json :: "(string \<times> string) list \<Rightarrow> json" where
  "links_json ls = JArr (map (\<lambda>(n, u). JObj [(''name'', JStr n), (''url'', JStr u)]) ls)"

subsection \<open>GET /api/projects\<close>







subsection \<open>GET /api/search\<close>

definition profile_json :: "profile \<Rightarrow> json" where
  "profile_json pr =
     JObj [(''id'', JNum (int (p_id pr))),
           (''name'', JStr (p_name pr)),
           (''email'', JStr (p_email pr)),
           (''education'', json_opt (p_education pr)),
           (''github_url'', json_opt (p_githubUrl pr)),
           (''linkedin_url'', json_opt (p_linkedinUrl pr)),
           (''portfolio_url'', json_opt (p_portfolioUrl pr))]"

definition project_json :: "project \<Rightarrow> json" where
  "project_json pj =
     JObj [(''id'', JNum (int (j_id pj))),
           (''title'', JStr (j_title pj)),
           (''description'', JStr (j_description pj)),
           (''links'', links_json (j_links pj)),
           (''created_at'', JNum (int (j_createdAt pj)))]"

definition skill_json :: "skill \<Rightarrow> json" where
  "skill_json sk =
     JObj [(''skill_name'', JStr (s_skillName sk)),
           (''proficiency_level'', JNum (s_proficiencyLevel sk))]"

definition work_json :: "work \<Rightarrow> json" where
  "work_json wk =
     JObj [(''id'', JNum (int (w_id wk))),
           (''company'', JStr (w_company wk)),
           (''position'', JStr (w_position wk)),
           (''start_date'', JStr (w_startDate wk)),
           (''end_date'', json_opt (w_endDate wk)),
           (''description'', json_opt (w_description wk))]"

text \<open>The four queries of the handler, each with the same \<^verbatim>\<open>take\<close> and \<^verbatim>\<open>skip\<close>.\<close>

definition search_profiles ::
  "string \<Rightarrow> int option \<Rightarrow> int option \<Rightarrow> db \<Rightarrow> js_error + json list" where
  "search_profiles searchTerm tk sk d =
     map_sum id (map profile_json)
       (find_page tk sk
          (filter (\<lambda>pr. contains_insensitive (p_name pr) searchTerm
                        \<or> contains_insensitive (p_email pr) searchTerm
                        \<or> contains_insensitive_opt (p_education pr) searchTerm)
                  (profiles d)))"

definition search_projects ::
  "string \<Rightarrow> int option \<Rightarrow> int option \<Rightarrow> db \<Rightarrow> js_error + json list" where
  "search_projects searchTerm tk sk d =
     map_sum id (map project_json)
       (find_page tk sk
          (filter (\<lambda>pj. contains_insensitive (j_title pj) searchTerm
                        \<or> contains_insensitive (j_description pj) searchTerm)
                  (order_desc j_createdAt (projects d))))"

definition search_skills ::
  "string \<Rightarrow> int option \<Rightarrow> int option \<Rightarrow> db \<Rightarrow> js_error + json list" where
  "search_skills searchTerm tk sk d =
     map_sum id (map skill_json)
       (find_page tk sk
          (filter (\<lambda>r. contains_insensitive (s_skillName r) searchTerm)
                  (order_desc s_proficiencyLevel (skills d))))"

definition search_work ::
  "string \<Rightarrow> int option \<Rightarrow> int option \<Rightarrow> db \<Rightarrow> js_error + json list" where
  "search_work searchTerm tk sk d =
     map_sum id (map work_json)
       (find_page tk sk
          (filter (\<lambda>wk. contains_insensitive (w_company wk) searchTerm
                        \<or> contains_insensitive (w_position wk) searchTerm
                        \<or> contains_insensitive_opt (w_description wk) searchTerm)
                  (order_desc w_startDate (workExperience d))))"

text \<open>
  \<^verbatim>\<open>if (type === 'all' || type === category) { bucket = await query }\<close>: a bucket
  whose category does not run keeps its initial empty array.
\<close>

definition bucket :: "string \<Rightarrow> string \<Rightarrow> (js_error + json list) \<Rightarrow> js_error + json list" where
  "bucket type category run =
     (if type = ''all'' \<or> type = category then run else Inr [])"

text \<open>\<^verbatim>\<open>JSON.stringify\<close> writes \<^verbatim>\<open>NaN\<close> and \<^verbatim>\<open>Infinity\<close> as \<^verbatim>\<open>null\<close>.\<close>

definition json_num_opt :: "int option \<Rightarrow> json" where
  "json_num_opt v =
     (case v of None \<Rightarrow> JNull | Some n \<Rightarrow> if is_infinite n then JNull else JNum n)"

definition search_response ::
  "string \<Rightarrow> string \<Rightarrow> json list \<Rightarrow> json list \<Rightarrow> json list \<Rightarrow> json list \<Rightarrow>
   int option \<Rightarrow> int option \<Rightarrow> response" where
  "search_response q type ps pjs sks wks tk sk =
     \<lparr>status = 200,
      body = JObj [(''query'', JStr q),
                   (''type'', JStr type),
                   (''results'',
                    JObj [(''profiles'', JArr ps),
                          (''projects'', JArr pjs),
                          (''skills'', JArr sks),
                          (''workExperience'', JArr wks)]),
                   (''pagination'',
                    JObj [(''limit'', json_num_opt tk), (''offset'', json_num_opt sk)])]\<rparr>"

definition search_required_response :: response where
  "search_required_response =
     \<lparr>status = 400, body = JObj [(''error'', JStr ''Search query is required'')]\<rparr>"

definition search_failed_response :: response where
  "search_failed_response =
     \<lparr>status = 500, body = JObj [(''error'', JStr ''Failed to perform search'')]\<rparr>"

text \<open>
  The handler of \<^verbatim>\<open>router.get('/search')\<close>. It is mounted without
  \<^verbatim>\<open>validateQuery\<close> and answers its own errors: the first query that throws sends the
  control to the \<^verbatim>\<open>catch\<close> block.
\<close>

definition search :: "query \<Rightarrow> db \<Rightarrow> response" where
  "search qs d =
     (if js_falsy (q_q qs) \<or> length (js_trim (the (q_q qs))) = 0 then search_required_response
      else
        (let q = the (q_q qs);
             type = (case q_type qs of None \<Rightarrow> ''all'' | Some t \<Rightarrow> t);
             tk = (case q_limit qs of None \<Rightarrow> Some 20 | Some l \<Rightarrow> parseInt l);
             sk = (case q_offset qs of None \<Rightarrow> Some 0 | Some k \<Rightarrow> parseInt k);
             searchTerm = js_trim q
         in case bucket type ''profiles'' (search_profiles searchTerm tk sk d) of
              Inl err \<Rightarrow> search_failed_response
            | Inr ps \<Rightarrow>
           (case bucket type ''projects'' (search_projects searchTerm tk sk d) of
              Inl err \<Rightarrow> search_failed_response
            | Inr pjs \<Rightarrow>
           (case bucket type ''skills'' (search_skills searchTerm tk sk d) of
              Inl err \<Rightarrow> search_failed_response
            | Inr sks \<Rightarrow>
           (case bucket type ''work'' (search_work searchTerm tk sk d) of
              Inl err \<Rightarrow> search_failed_response
            | Inr wks \<Rightarrow> search_response q type ps pjs sks wks tk sk)))))"

text \<open>The buckets of a search answer, read back from its JSON body.\<close>

definition result_bucket :: "string \<Rightarrow> response \<Rightarrow> json option" where
  "result_bucket name r =
     (case json_field ''results'' (body r) of
        None \<Rightarrow> None
      | Some res \<Rightarrow> json_field name res)"



section \<open>Sample requests and stores\<close>

text \<open>
  Concrete inputs at which the theorems below are instantiated: two profile payloads, the
  store that two POST requests with them leave behind, an update for the newer profile,
  and three queries.
\<close>

definition ada_body :: profile_body where
  "ada_body =
     \<lparr>b_name = ''Ada'', b_email = ''ada@example.com'', b_education = None,
      b_skills = Some [SkillString ''Go'', SkillObject ''SQL'' (Some 4)],
      b_projects = Some [\<lparr>pi_title = ''Compiler'', pi_description = ''A small compiler'',
                           pi_links = None\<rparr>,
                         \<lparr>pi_title = ''Parser'', pi_description = ''A JSON parser'',
                           pi_links = Some [(''GitHub'', ''https://github.com/ada/parser'')]\<rparr>],
      b_workExperience = None,
      b_github_url = None, b_linkedin_url = None, b_portfolio_url = None\<rparr>"

definition bob_body :: profile_body where
  "bob_body =
     \<lparr>b_name = ''Bob'', b_email = ''bob@example.com'', b_education = Some ''BSc'',
      b_skills = Some [SkillString ''Rust''],
      b_projects = None,
      b_workExperience = Some [\<lparr>wi_company = ''Initech'', wi_position = ''Engineer'',
                                 wi_start_date = ''2023-01'', wi_end_date = None,
                                 wi_description = None\<rparr>],
      b_github_url = None, b_linkedin_url = None, b_portfolio_url = None\<rparr>"

definition ada_row :: profile where
  "ada_row =
     \<lparr>p_id = 1, p_name = ''Ada'', p_email = ''ada@example.com'', p_education = None,
      p_githubUrl = None, p_linkedinUrl = None, p_portfolioUrl = None,
      p_createdAt = 1, p_updatedAt = 1\<rparr>"

definition bob_row :: profile where
  "bob_row =
     \<lparr>p_id = 2, p_name = ''Bob'', p_email = ''bob@example.com'', p_education = Some ''BSc'',
      p_githubUrl = None, p_linkedinUrl = None, p_portfolioUrl = None,
      p_createdAt = 2, p_updatedAt = 2\<rparr>"

definition two_profiles_db :: db where
  "two_profiles_db =
     \<lparr>profiles = [ada_row, bob_row],
      skills = [\<lparr>s_id = 1, s_profileId = 1, s_skillName = ''Go'', s_proficiencyLevel = 1\<rparr>,
                \<lparr>s_id = 2, s_profileId = 1, s_skillName = ''SQL'', s_proficiencyLevel = 4\<rparr>,
                \<lparr>s_id = 3, s_profileId = 2, s_skillName = ''Rust'', s_proficiencyLevel = 1\<rparr>],
      projects = [\<lparr>j_id = 1, j_profileId = 1, j_title = ''Compiler'',
                   j_description = ''A small compiler'', j_links = [], j_createdAt = 1\<rparr>,
                  \<lparr>j_id = 2, j_profileId = 1, j_title = ''Parser'',
                   j_description = ''A JSON parser'',
                   j_links = [(''GitHub'', ''https://github.com/ada/parser'')],
                   j_createdAt = 1\<rparr>],
      workExperience = [\<lparr>w_id = 1, w_profileId = 2, w_company = ''Initech'',
                         w_position = ''Engineer'', w_startDate = ''2023-01'',
                         w_endDate = None, w_description = None\<rparr>],
      nextProfileId = 3, nextSkillId = 4, nextProjectId = 3, nextWorkId = 2\<rparr>"

definition bob_update :: profile_body where
  "bob_update =
     \<lparr>b_name = ''Robert'', b_email = ''bob@example.com'', b_education = None,
      b_skills = Some [],
      b_projects = Some [\<lparr>pi_title = ''Kernel'', pi_description = ''A toy kernel'',
                           pi_links = Some [(''GitHub'', ''https://github.com/bob/kernel'')]\<rparr>],
      b_workExperience = None,
      b_github_url = None, b_linkedin_url = None, b_portfolio_url = None\<rparr>"

definition projects_search :: query where
  "projects_search =
     \<lparr>q_q = Some '' compiler '', q_type = Some ''projects'', q_limit = None, q_offset = None,
      q_skill = None\<rparr>"

definition blank_search :: query where
  "blank_search =
     \<lparr>q_q = Some ''   '', q_type = None, q_limit = None, q_offset = None, q_skill = None\<rparr>"




text \<open>A verifier that accepts one token, and the handler behind the gate: it counts its runs.\<close>

definition one_token_verifier :: "string \<Rightarrow> jwt_error + claims" where
  "one_token_verifier t =
     (if t = ''good'' then Inr \<lparr>c_id = 1, c_username = ''admin'', c_role = ''admin''\<rparr>
      else Inl JsonWebTokenError)"

definition counting_handler :: "request \<Rightarrow> nat \<Rightarrow> response \<times> nat" where
  "counting_handler r s = (message_response 200 ''done'', Suc s)"

section \<open>Properties of the authentication gate\<close>

text \<open>
  The token that \<^verbatim>\<open>authHeader.split(' ')[1]\<close> picks is the second word of the header:
  there is none when the header has no space, and it is empty when a second space or the
  end of the header follows the first space at once.
\<close>

lemma js_split_takeWhile:
  "js_split c s =
     takeWhile (\<lambda>x. x \<noteq> c) s
     # (case dropWhile (\<lambda>x. x \<noteq> c) s of [] \<Rightarrow> [] | x # rest \<Rightarrow> js_split c rest)"
  by (induction s) (auto split: list.splits)

lemma js_split_no_space:
  assumes "dropWhile (\<lambda>x. x \<noteq> c) s = []"
  shows "js_split c s = [s]"
proof -
  have "js_split c s = [takeWhile (\<lambda>x. x \<noteq> c) s]"
    by (subst js_split_takeWhile) (simp only: assms list.case)
  moreover have "takeWhile (\<lambda>x. x \<noteq> c) s = s"
    using assms by simp
  ultimately show ?thesis
    by simp
qed

lemma js_split_space:
  assumes "dropWhile (\<lambda>x. x \<noteq> c) s = x # rest"
  shows "\<exists>ws. js_split c s
           = takeWhile (\<lambda>x. x \<noteq> c) s # takeWhile (\<lambda>x. x \<noteq> c) rest # ws"
proof -
  have "js_split c s = takeWhile (\<lambda>x. x \<noteq> c) s # js_split c rest"
    by (subst js_split_takeWhile) (simp only: assms list.case)
  moreover have "\<exists>ws. js_split c rest = takeWhile (\<lambda>x. x \<noteq> c) rest # ws"
    by (subst js_split_takeWhile) simp
  ultimately show ?thesis
    by auto
qed

lemma bearer_token_word:
  "bearer_token (Some h) =
     (if h = [] then Some []
      else case dropWhile (\<lambda>x. x \<noteq> CHR '' '') h of
             [] \<Rightarrow> None
           | x # rest \<Rightarrow> Some (takeWhile (\<lambda>x. x \<noteq> CHR '' '') rest))"
proof (cases "dropWhile (\<lambda>x. x \<noteq> CHR '' '') h")
  case Nil
  have "js_split CHR '' '' h = [h]"
    by (rule js_split_no_space [OF Nil])
  then show ?thesis
    unfolding Nil by (simp add: bearer_token_def)
next
  case (Cons x rest)
  from js_split_space [OF Cons] obtain ws where
    "js_split CHR '' '' h
       = takeWhile (\<lambda>x. x \<noteq> CHR '' '') h # takeWhile (\<lambda>x. x \<noteq> CHR '' '') rest # ws"
    by blast
  then show ?thesis
    unfolding Cons by (simp add: bearer_token_def)
qed

lemma bearer_token_missing:
  "js_falsy (bearer_token (Some h)) = second_word_missing h"
proof (cases "dropWhile (\<lambda>x. x \<noteq> CHR '' '') h")
  case Nil
  show ?thesis
    unfolding bearer_token_word second_word_missing_def second_word_def Nil
    by (simp add: js_falsy_def)
next
  case (Cons x rest)
  then have "h \<noteq> []"
    by auto
  then show ?thesis
    unfolding bearer_token_word second_word_missing_def second_word_def Cons
    by (simp add: js_falsy_def)
qed

lemma bearer_token_present:
  assumes "\<not> second_word_missing h"
  shows "bearer_token (Some h) = Some (second_word h)"
proof (cases "dropWhile (\<lambda>x. x \<noteq> CHR '' '') h")
  case Nil
  then show ?thesis
    using assms unfolding second_word_missing_def second_word_def Nil by simp
next
  case (Cons x rest)
  then have "h \<noteq> []"
    by auto
  then show ?thesis
    unfolding bearer_token_word second_word_def Cons by simp
qed

text \<open>
  C2. \<^verbatim>\<open>requireAuth\<close> hands every GET request to the next handler unchanged, whatever
  its headers and whatever the verifier would say. A request of any other method is
  answered 401 with code \<open>NO_TOKEN\<close> when it has no Authorization header or when the
  header has no second word; the answer and the state do not depend on the protected
  handler \<open>next\<close>, which therefore does not run. When the header has a second word, the
  verifier decides on that word, whatever the first word is: 403 with code
  \<open>INVALID_TOKEN\<close> without running \<open>next\<close>, or \<open>next\<close> on the request with the claims
  attached.
\<close>

theorem requireAuth_get_or_no_token:
  "(req_method req = ''GET'' \<longrightarrow> requireAuth verify req next st = next req st)
   \<and> (req_method req \<noteq> ''GET'' \<and> req_authorization req = None \<longrightarrow>
        requireAuth verify req next st =
          (\<lparr>status = 401,
            body = JObj [(''error'', JStr ''Access denied. No token provided.''),
                         (''code'', JStr ''NO_TOKEN'')]\<rparr>, st))
   \<and> (req_method req \<noteq> ''GET'' \<and> req_authorization req = Some h \<and> second_word_missing h \<longrightarrow>
        requireAuth verify req next st =
          (\<lparr>status = 401,
            body = JObj [(''error'', JStr ''Access denied. No token provided.''),
                         (''code'', JStr ''NO_TOKEN'')]\<rparr>, st))
   \<and> (req_method req \<noteq> ''GET'' \<and> req_authorization req = Some h \<and> \<not> second_word_missing h \<longrightarrow>
        requireAuth verify req next st =
          (case verify (second_word h) of
             Inl err \<Rightarrow>
               (\<lparr>status = 403,
                 body = JObj [(''error'', JStr ''Access denied. Invalid token.''),
                              (''code'', JStr ''INVALID_TOKEN'')]\<rparr>, st)
           | Inr u \<Rightarrow> next (req\<lparr>req_user := Some u\<rparr>) st))"
proof (intro conjI impI)
  assume "req_method req = ''GET''"
  then show "requireAuth verify req next st = next req st"
    by (simp add: requireAuth_def)
next
  assume "req_method req \<noteq> ''GET'' \<and> req_authorization req = None"
  then show "requireAuth verify req next st =
          (\<lparr>status = 401,
            body = JObj [(''error'', JStr ''Access denied. No token provided.''),
                         (''code'', JStr ''NO_TOKEN'')]\<rparr>, st)"
    by (simp add: requireAuth_def authenticateToken_def no_token_response_def
          bearer_token_def js_falsy_def)
next
  assume "req_method req \<noteq> ''GET'' \<and> req_authorization req = Some h \<and> second_word_missing h"
  then show "requireAuth verify req next st =
          (\<lparr>status = 401,
            body = JObj [(''error'', JStr ''Access denied. No token provided.''),
                         (''code'', JStr ''NO_TOKEN'')]\<rparr>, st)"
    by (simp add: requireAuth_def authenticateToken_def no_token_response_def
          bearer_token_missing)
next
  assume a: "req_method req \<noteq> ''GET'' \<and> req_authorization req = Some h \<and> \<not> second_word_missing h"
  then have "\<not> js_falsy (bearer_token (Some h))"
    by (simp add: bearer_token_missing)
  then show "requireAuth verify req next st =
          (case verify (second_word h) of
             Inl err \<Rightarrow>
               (\<lparr>status = 403,
                 body = JObj [(''error'', JStr ''Access denied. Invalid token.''),
                              (''code'', JStr ''INVALID_TOKEN'')]\<rparr>, st)
           | Inr u \<Rightarrow> next (req\<lparr>req_user := Some u\<rparr>) st)"
    using a
    by (simp add: requireAuth_def authenticateToken_def invalid_token_response_def
          bearer_token_present split: sum.splits)
qed

theorem requireAuth_get_or_no_token_witness:
  "requireAuth one_token_verifier
      \<lparr>req_method = ''GET'', req_authorization = Some ''Basic dXNlcjpwYXNz'', req_user = None\<rparr>
      counting_handler 0
    = (message_response 200 ''done'', 1)
   \<and> requireAuth one_token_verifier
      \<lparr>req_method = ''DELETE'', req_authorization = None, req_user = None\<rparr>
      counting_handler 0
    = (\<lparr>status = 401,
        body = JObj [(''error'', JStr ''Access denied. No token provided.''),
                     (''code'', JStr ''NO_TOKEN'')]\<rparr>, 0)
   \<and> second_word_missing ''Bearer''
   \<and> requireAuth one_token_verifier
      \<lparr>req_method = ''POST'', req_authorization = Some ''Bearer'', req_user = None\<rparr>
      counting_handler 0
    = (\<lparr>status = 401,
        body = JObj [(''error'', JStr ''Access denied. No token provided.''),
                     (''code'', JStr ''NO_TOKEN'')]\<rparr>, 0)
   \<and> second_word ''Token good'' = ''good''
   \<and> requireAuth one_token_verifier
      \<lparr>req_method = ''PUT'', req_authorization = Some ''Token good'', req_user = None\<rparr>
      counting_handler 0
    = (message_response 200 ''done'', 1)"
proof -
  have m: "second_word_missing ''Bearer''" "second_word ''Token good'' = ''good''"
    by (simp_all add: second_word_missing_def second_word_def)
  then have n: "\<not> second_word_missing ''Token good''"
    by (simp add: second_word_missing_def)
  show ?thesis
    using requireAuth_get_or_no_token
            [of "\<lparr>req_method = ''GET'', req_authorization = Some ''Basic dXNlcjpwYXNz'',
                  req_user = None\<rparr>" one_token_verifier counting_handler 0]
          requireAuth_get_or_no_token
            [of "\<lparr>req_method = ''DELETE'', req_authorization = None, req_user = None\<rparr>"
                one_token_verifier counting_handler 0]
          requireAuth_get_or_no_token
            [of "\<lparr>req_method = ''POST'', req_authorization = Some ''Bearer'', req_user = None\<rparr>"
                one_token_verifier counting_handler 0 "''Bearer''"]
          requireAuth_get_or_no_token
            [of "\<lparr>req_method = ''PUT'', req_authorization = Some ''Token good'',
                  req_user = None\<rparr>" one_token_verifier counting_handler 0 "''Token good''"]
          m n
    by (simp add: one_token_verifier_def counting_handler_def)
qed

text \<open>
  C2 as written fails at a POST request with the header
  \<^verbatim>\<open>Authorization: Basic dXNlcjpwYXNz\<close>: it carries no bearer token, and the answer
  is 403 with code \<open>INVALID_TOKEN\<close>, not 401 with code \<open>NO_TOKEN\<close>.
\<close>

theorem basic_header_counterexample:
  "requireAuth one_token_verifier
      \<lparr>req_method = ''POST'', req_authorization = Some ''Basic dXNlcjpwYXNz'', req_user = None\<rparr>
      counting_handler 0
    = (\<lparr>status = 403,
        body = JObj [(''error'', JStr ''Access denied. Invalid token.''),
                     (''code'', JStr ''INVALID_TOKEN'')]\<rparr>, 0)"
  by code_simp

text \<open>
  C3, as the code has it. \<^verbatim>\<open>authenticateToken\<close> does not look at the kind of error the
  verifier reports: a request of a method other than GET whose token fails verification,
  by expiry or otherwise, is answered 403 with code \<open>INVALID_TOKEN\<close>, and the protected
  handler does not run.
\<close>

theorem rejected_token_is_invalid_token:
  assumes "req_method req \<noteq> ''GET''"
      and "\<not> js_falsy (bearer_token (req_authorization req))"
      and "verify (the (bearer_token (req_authorization req))) = Inl e"
  shows "requireAuth verify req next st =
           (\<lparr>status = 403,
             body = JObj [(''error'', JStr ''Access denied. Invalid token.''),
                          (''code'', JStr ''INVALID_TOKEN'')]\<rparr>, st)"
  using assms by (simp add: requireAuth_def authenticateToken_def invalid_token_response_def)

theorem rejected_token_is_invalid_token_witness:
  "requireAuth (\<lambda>t. if t = ''old'' then Inl TokenExpiredError else Inl JsonWebTokenError)
     \<lparr>req_method = ''PUT'', req_authorization = Some ''Bearer old'', req_user = None\<rparr>
     (\<lambda>r s. (message_response 200 ''done'', Suc s)) (0::nat)
   = (\<lparr>status = 403,
       body = JObj [(''error'', JStr ''Access denied. Invalid token.''),
                    (''code'', JStr ''INVALID_TOKEN'')]\<rparr>, 0)"
proof -
  let ?req = "\<lparr>req_method = ''PUT'', req_authorization = Some ''Bearer old'', req_user = None\<rparr>"
  let ?verify =
    "\<lambda>t. if t = ''old'' then Inl TokenExpiredError else Inl JsonWebTokenError :: jwt_error + claims"
  have tok: "bearer_token (req_authorization ?req) = Some ''old''"
    by (simp add: bearer_token_def)
  have m: "req_method ?req \<noteq> ''GET''"
    by simp
  have f: "\<not> js_falsy (bearer_token (req_authorization ?req))"
    unfolding tok by (simp add: js_falsy_def)
  have v: "?verify (the (bearer_token (req_authorization ?req))) = Inl TokenExpiredError"
    unfolding tok by simp
  show ?thesis
    by (rule rejected_token_is_invalid_token
          [where req = ?req and verify = ?verify and e = TokenExpiredError, OF m f v])
qed

text \<open>
  C3 as written fails: a PUT request whose token the verifier reports as expired gets
  the code \<open>INVALID_TOKEN\<close>, not \<open>TOKEN_EXPIRED\<close>.
\<close>

theorem expired_token_counterexample:
  "bearer_token (Some ''Bearer old'') = Some ''old''
   \<and> fst (requireAuth
            (\<lambda>t. if t = ''old'' then Inl TokenExpiredError else Inl JsonWebTokenError)
            \<lparr>req_method = ''PUT'', req_authorization = Some ''Bearer old'', req_user = None\<rparr>
            (\<lambda>r s. (message_response 200 ''done'', Suc s)) (0::nat))
     = \<lparr>status = 403,
        body = JObj [(''error'', JStr ''Access denied. Invalid token.''),
                     (''code'', JStr ''INVALID_TOKEN'')]\<rparr>
   \<and> json_field ''code''
       (body (fst (requireAuth
            (\<lambda>t. if t = ''old'' then Inl TokenExpiredError else Inl JsonWebTokenError)
            \<lparr>req_method = ''PUT'', req_authorization = Some ''Bearer old'', req_user = None\<rparr>
            (\<lambda>r s. (message_response 200 ''done'', Suc s)) (0::nat))))
     \<noteq> Some (JStr ''TOKEN_EXPIRED'')"
  by (simp add: requireAuth_def authenticateToken_def invalid_token_response_def
        bearer_token_def js_falsy_def)

text \<open>
  C10. Let username and password both be present. A login with a username that is not
  in the user store is answered 401 with \<open>Invalid credentials\<close> and code
  \<open>INVALID_CREDENTIALS\<close>, and a login with a stored username gets the very same answer
  when the hash comparison completes and rejects the password. When the comparison throws
  instead, the stored username is answered 500 with code \<open>LOGIN_ERROR\<close>.
\<close>

theorem login_failures_indistinguishable:
  assumes "\<not> js_not (lb_username a)" and "\<not> js_not (lb_password a)"
      and "\<not> js_not (lb_username b)" and "\<not> js_not (lb_password b)"
      and unknown: "find (\<lambda>u. lb_username a = Some (JStr (u_username u))) users = None"
      and known: "find (\<lambda>u. lb_username b = Some (JStr (u_username u))) users = Some usr"
  shows "login compare sign a =
           \<lparr>status = 401,
            body = JObj [(''error'', JStr ''Invalid credentials''),
                         (''code'', JStr ''INVALID_CREDENTIALS'')]\<rparr>
         \<and> (compare (the (lb_password b)) (u_password usr) = Some False \<longrightarrow>
               login compare sign b = login compare sign a)
         \<and> (compare (the (lb_password b)) (u_password usr) = None \<longrightarrow>
               login compare sign b =
                 \<lparr>status = 500,
                  body = JObj [(''error'', JStr ''Internal server error''),
                               (''code'', JStr ''LOGIN_ERROR'')]\<rparr>)"
  using assms
  by (simp add: login_def invalid_credentials_response_def login_error_response_def)

theorem login_failures_indistinguishable_witness:
  "login (bcrypt_compare (\<lambda>s h. s = ''admin123'')) (\<lambda>c. Some ''signed'')
      \<lparr>lb_username = Some (JStr ''nobody''), lb_password = Some (JStr ''guess'')\<rparr>
   = \<lparr>status = 401,
      body = JObj [(''error'', JStr ''Invalid credentials''),
                   (''code'', JStr ''INVALID_CREDENTIALS'')]\<rparr>
   \<and> bcrypt_compare (\<lambda>s h. s = ''admin123'') (JStr ''guess'') (u_password (hd users))
       = Some False
   \<and> login (bcrypt_compare (\<lambda>s h. s = ''admin123'')) (\<lambda>c. Some ''signed'')
        \<lparr>lb_username = Some (JStr ''admin''), lb_password = Some (JStr ''guess'')\<rparr>
     = login (bcrypt_compare (\<lambda>s h. s = ''admin123'')) (\<lambda>c. Some ''signed'')
        \<lparr>lb_username = Some (JStr ''nobody''), lb_password = Some (JStr ''guess'')\<rparr>
   \<and> bcrypt_compare (\<lambda>s h. s = ''admin123'') (JBool True) (u_password (hd users)) = None
   \<and> login (bcrypt_compare (\<lambda>s h. s = ''admin123'')) (\<lambda>c. Some ''signed'')
        \<lparr>lb_username = Some (JStr ''admin''), lb_password = Some (JBool True)\<rparr>
     = \<lparr>status = 500,
        body = JObj [(''error'', JStr ''Internal server error''),
                     (''code'', JStr ''LOGIN_ERROR'')]\<rparr>"
proof -
  let ?a = "\<lparr>lb_username = Some (JStr ''nobody''), lb_password = Some (JStr ''guess'')\<rparr>"
  let ?b = "\<lparr>lb_username = Some (JStr ''admin''), lb_password = Some (JStr ''guess'')\<rparr>"
  let ?c = "\<lparr>lb_username = Some (JStr ''admin''), lb_password = Some (JBool True)\<rparr>"
  let ?cmp = "bcrypt_compare (\<lambda>s h. s = ''admin123'')"
  have present: "\<not> js_not (lb_username ?a)" "\<not> js_not (lb_password ?a)"
                "\<not> js_not (lb_username ?b)" "\<not> js_not (lb_password ?b)"
    by (simp_all add: js_not_def)
  have present': "\<not> js_not (lb_username ?c)" "\<not> js_not (lb_password ?c)"
    by (simp_all add: js_not_def)
  have unknown: "find (\<lambda>u. lb_username ?a = Some (JStr (u_username u))) users = None"
    by (simp add: users_def)
  have known: "find (\<lambda>u. lb_username ?b = Some (JStr (u_username u))) users = Some (hd users)"
              "find (\<lambda>u. lb_username ?c = Some (JStr (u_username u))) users = Some (hd users)"
    by (simp_all add: users_def)
  have cmp: "?cmp (JStr ''guess'') (u_password (hd users)) = Some False"
            "?cmp (JBool True) (u_password (hd users)) = None"
    by (simp_all add: bcrypt_compare_def)
  show ?thesis
    using login_failures_indistinguishable
            [where a = ?a and b = ?b and compare = ?cmp and usr = "hd users"
               and sign = "\<lambda>c. Some ''signed''",
             OF present unknown known(1)]
          login_failures_indistinguishable
            [where a = ?a and b = ?c and compare = ?cmp and usr = "hd users"
               and sign = "\<lambda>c. Some ''signed''",
             OF present(1,2) present' unknown known(2)]
          cmp
    by simp
qed

text \<open>
  C10 as written fails at a password that is present but no string, the number 12345:
  \<^verbatim>\<open>bcrypt.compare\<close> throws on it, so the stored username \<open>admin\<close> is answered 500
  where an unknown username is answered 401, and the answer tells whether the username
  exists.
\<close>

theorem non_string_password_counterexample:
  "login (bcrypt_compare (\<lambda>s h. s = ''admin123'')) (\<lambda>c. Some ''signed'')
      \<lparr>lb_username = Some (JStr ''nobody''), lb_password = Some (JNum 12345)\<rparr>
   = \<lparr>status = 401,
      body = JObj [(''error'', JStr ''Invalid credentials''),
                   (''code'', JStr ''INVALID_CREDENTIALS'')]\<rparr>
   \<and> login (bcrypt_compare (\<lambda>s h. s = ''admin123'')) (\<lambda>c. Some ''signed'')
        \<lparr>lb_username = Some (JStr ''admin''), lb_password = Some (JNum 12345)\<rparr>
     = \<lparr>status = 500,
        body = JObj [(''error'', JStr ''Internal server error''),
                     (''code'', JStr ''LOGIN_ERROR'')]\<rparr>"
  by (simp add: login_def js_not_def users_def bcrypt_compare_def
        invalid_credentials_response_def login_error_response_def)

section \<open>Properties of the store\<close>

subsection \<open>What the ORM calls leave untouched\<close>

lemma profiles_skill_createMany [simp]: "profiles (skill_createMany rows d) = profiles d"
  by (simp add: skill_createMany_def)
lemma profiles_project_createMany [simp]: "profiles (project_createMany now rows d) = profiles d"
  by (simp add: project_createMany_def)
lemma profiles_work_createMany [simp]: "profiles (work_createMany rows d) = profiles d"
  by (simp add: work_createMany_def)
lemma profiles_skill_deleteMany [simp]: "profiles (skill_deleteMany pid d) = profiles d"
  by (simp add: skill_deleteMany_def)
lemma profiles_project_deleteMany [simp]: "profiles (project_deleteMany pid d) = profiles d"
  by (simp add: project_deleteMany_def)
lemma profiles_work_deleteMany [simp]: "profiles (work_deleteMany pid d) = profiles d"
  by (simp add: work_deleteMany_def)

lemma projects_skill_createMany [simp]: "projects (skill_createMany rows d) = projects d"
  by (simp add: skill_createMany_def)
lemma projects_work_createMany [simp]: "projects (work_createMany rows d) = projects d"
  by (simp add: work_createMany_def)
lemma projects_skill_deleteMany [simp]: "projects (skill_deleteMany pid d) = projects d"
  by (simp add: skill_deleteMany_def)
lemma projects_work_deleteMany [simp]: "projects (work_deleteMany pid d) = projects d"
  by (simp add: work_deleteMany_def)
lemma next_skill_createMany [simp]: "nextProfileId (skill_createMany rows d) = nextProfileId d"
  by (simp add: skill_createMany_def)
lemma next_project_createMany [simp]:
  "nextProfileId (project_createMany now rows d) = nextProfileId d"
  by (simp add: project_createMany_def)
lemma next_work_createMany [simp]: "nextProfileId (work_createMany rows d) = nextProfileId d"
  by (simp add: work_createMany_def)
lemma next_skill_deleteMany [simp]: "nextProfileId (skill_deleteMany pid d) = nextProfileId d"
  by (simp add: skill_deleteMany_def)
lemma next_project_deleteMany [simp]: "nextProfileId (project_deleteMany pid d) = nextProfileId d"
  by (simp add: project_deleteMany_def)
lemma next_work_deleteMany [simp]: "nextProfileId (work_deleteMany pid d) = nextProfileId d"
  by (simp add: work_deleteMany_def)

lemma profile_create_profiles:
  assumes "profile_create now row sk pj wk d = Inr (p, d')"
  shows "profiles d' = profiles d @ [p] \<and> p_email p = p_email row
         \<and> p_email row \<notin> set (map p_email (profiles d)) \<and> p_id p = nextProfileId d"
  using assms
  by (auto simp: profile_create_def Let_def split: if_splits option.splits)

lemma profile_update_profiles:
  assumes "profile_update now pid name email ed gh li po d = Inr d'"
  shows "\<exists>before r after r'. profiles d = before @ r # after
           \<and> profiles d' = before @ r' # after
           \<and> p_email r' = email \<and> p_id r' = p_id r \<and> p_id r = pid
           \<and> p_createdAt r' = p_createdAt r
           \<and> pid \<notin> set (map p_id before)
           \<and> email \<notin> set (map p_email (before @ after))
           \<and> skills d' = skills d \<and> projects d' = projects d
           \<and> workExperience d' = workExperience d"
proof -
  let ?P = "\<lambda>p. p_id p \<noteq> pid"
  obtain r after where rest: "dropWhile ?P (profiles d) = r # after"
    using assms by (auto simp: profile_update_def Let_def split: list.splits)
  have split: "profiles d = takeWhile ?P (profiles d) @ r # after"
    using rest by (metis takeWhile_dropWhile_id)
  have rid: "p_id r = pid"
    using rest by (metis (mono_tags, lifting) hd_dropWhile list.distinct(1) list.sel(1))
  have nb: "pid \<notin> set (map p_id (takeWhile ?P (profiles d)))"
    by (auto dest: set_takeWhileD)
  show ?thesis
    using assms rest split rid nb
    apply (simp add: profile_update_def Let_def split: if_splits)
    apply (rule exI [of _ "takeWhile ?P (profiles d)"])
    apply (rule exI [of _ r])
    apply (rule exI [of _ after])
    apply auto
    done
qed

lemma put_transaction_profiles:
  assumes "put_transaction now pid b d = Inr d'"
  shows "\<exists>d1. profile_update now pid (b_name b) (b_email b) (b_education b) (b_github_url b)
             (b_linkedin_url b) (b_portfolio_url b) d = Inr d1 \<and> profiles d' = profiles d1"
  using assms
  by (auto simp: put_transaction_def Let_def split: sum.splits option.splits)

lemma two_profiles_db_reachable:
  "api_step ''production'' 2 (PostProfile bob_body)
     (api_step ''production'' 1 (PostProfile ada_body) empty_db) = two_profiles_db"
  by (simp add: route_post_profile_def asyncHandler_def post_profile_def
        profile_findFirst_email_def profile_create_def empty_db_def ada_body_def bob_body_def
        two_profiles_db_def ada_row_def bob_row_def
        skill_createMany_def project_createMany_def work_createMany_def
        skill_row_def project_row_def work_row_def Let_def enumerate_eq_zip)

subsection \<open>Primary and foreign keys\<close>

text \<open>
  The key integrity holds in the empty store and after every operation of the API, so
  it holds in every store the API can reach.
\<close>

lemma keys_ok_empty: "keys_ok empty_db"
  by (simp add: keys_ok_def empty_db_def)

lemma keys_okD:
  assumes "keys_ok d"
  shows "distinct (map p_id (profiles d))"
    and "\<forall>pj\<in>set (projects d). j_profileId pj \<in> set (map p_id (profiles d))"
  using assms by (auto simp: keys_ok_def)

lemma assigned_project_owner:
  "j_profileId ` set (map (\<lambda>(i, r). r\<lparr>j_id := i, j_createdAt := now\<rparr>) (enumerate n rows))
   = j_profileId ` set rows"
  by (induction rows arbitrary: n) simp_all

lemma project_createMany_owners:
  "j_profileId ` set (projects (project_createMany now rows d))
   = j_profileId ` set (projects d) \<union> j_profileId ` set rows"
  unfolding project_createMany_def by (simp add: image_Un assigned_project_owner del: set_map)

lemma project_createMany_mem:
  assumes "x \<in> set (projects (project_createMany now rows d))"
  shows "j_profileId x \<in> j_profileId ` set (projects d) \<union> j_profileId ` set rows"
  using assms project_createMany_owners [of now rows d] by blast

lemma profile_create_keys:
  assumes "profile_create now row sk pj wk d = Inr (p, d')"
  shows "map p_id (profiles d') = map p_id (profiles d) @ [nextProfileId d]
         \<and> nextProfileId d' = Suc (nextProfileId d)
         \<and> j_profileId ` set (projects d')
             \<subseteq> insert (nextProfileId d) (j_profileId ` set (projects d))"
  using assms
  by (cases sk; cases pj; cases wk)
     (auto simp: profile_create_def Let_def split: if_splits dest!: project_createMany_mem)

lemma keys_ok_post:
  assumes "keys_ok d"
  shows "keys_ok (snd (post_profile now b d))"
proof (cases "post_profile now b d")
  case (Pair r d')
  show ?thesis
  proof (cases "d' = d")
    case True
    then show ?thesis using assms Pair by simp
  next
    case False
    then obtain row sk pj wk p where "profile_create now row sk pj wk d = Inr (p, d')"
      using Pair by (auto simp: post_profile_def split: option.splits sum.splits)
    from profile_create_keys [OF this] have
      ids: "map p_id (profiles d') = map p_id (profiles d) @ [nextProfileId d]"
      and nxt: "nextProfileId d' = Suc (nextProfileId d)"
      and own: "j_profileId ` set (projects d')
                 \<subseteq> insert (nextProfileId d) (j_profileId ` set (projects d))"
      by simp_all
    have lt: "\<forall>i\<in>set (map p_id (profiles d)). i < nextProfileId d"
      using assms by (simp add: keys_ok_def list_all_iff)
    then have fresh: "nextProfileId d \<notin> set (map p_id (profiles d))"
      by blast
    have 1: "distinct (map p_id (profiles d'))"
      unfolding ids using assms fresh by (simp add: keys_ok_def)
    have 2: "list_all (\<lambda>i. i < nextProfileId d') (map p_id (profiles d'))"
      unfolding ids nxt using lt by (simp add: list_all_iff less_Suc_eq)
    have old: "j_profileId ` set (projects d) \<subseteq> set (map p_id (profiles d))"
      using assms by (simp add: keys_ok_def)
    then have "insert (nextProfileId d) (j_profileId ` set (projects d))
                \<subseteq> set (map p_id (profiles d) @ [nextProfileId d])"
      by auto
    with own have "j_profileId ` set (projects d') \<subseteq> set (map p_id (profiles d) @ [nextProfileId d])"
      by (rule subset_trans)
    then have 3: "set (map j_profileId (projects d')) \<subseteq> set (map p_id (profiles d'))"
      unfolding ids by simp
    show ?thesis
      using Pair 1 2 3 by (simp add: keys_ok_def)
  qed
qed

lemma profile_update_keys:
  assumes "profile_update now pid name email ed gh li po d = Inr d1"
  shows "map p_id (profiles d1) = map p_id (profiles d) \<and> nextProfileId d1 = nextProfileId d
         \<and> projects d1 = projects d \<and> pid \<in> set (map p_id (profiles d))"
proof -
  let ?P = "\<lambda>p. p_id p \<noteq> pid"
  obtain r after where rest: "dropWhile ?P (profiles d) = r # after"
    using assms by (auto simp: profile_update_def Let_def split: list.splits)
  have split: "profiles d = takeWhile ?P (profiles d) @ r # after"
    using rest by (metis takeWhile_dropWhile_id)
  have rid: "p_id r = pid"
    using rest by (metis (mono_tags, lifting) hd_dropWhile list.distinct(1) list.sel(1))
  have ids: "map p_id (profiles d) = map p_id (takeWhile ?P (profiles d)) @ pid # map p_id after"
    using split rid by (metis list.simps(9) map_append)
  show ?thesis
    using assms rest rid ids
    by (auto simp: profile_update_def Let_def split: if_splits)
qed

lemma put_transaction_keys:
  assumes "put_transaction now pid b d = Inr d'"
  shows "map p_id (profiles d') = map p_id (profiles d) \<and> nextProfileId d' = nextProfileId d
         \<and> j_profileId ` set (projects d') \<subseteq> insert pid (j_profileId ` set (projects d))
         \<and> pid \<in> set (map p_id (profiles d))"
proof -
  obtain d1 where upd: "profile_update now pid (b_name b) (b_email b) (b_education b)
        (b_github_url b) (b_linkedin_url b) (b_portfolio_url b) d = Inr d1"
    using assms by (auto simp: put_transaction_def split: sum.splits)
  note k = profile_update_keys [OF upd]
  have del: "x \<in> set (projects (project_deleteMany q y)) \<Longrightarrow> x \<in> set (projects y)" for x y q
    by (simp add: project_deleteMany_def)
  have own: "j_profileId (project_row q x) = q" for x q
    by (simp add: project_row_def)
  show ?thesis
    using assms k
    by (cases "b_skills b"; cases "b_projects b"; cases "b_workExperience b")
       (auto simp: put_transaction_def upd Let_def own
             dest!: project_createMany_mem del)
qed

lemma keys_ok_put:
  assumes "keys_ok d"
  shows "keys_ok (snd (put_profile now b d))"
proof (cases "profile_findFirst_newest d")
  case None
  then show ?thesis using assms by (simp add: put_profile_def)
next
  case (Some t)
  show ?thesis
  proof (cases "put_transaction now (p_id t) b d")
    case (Inl err)
    then show ?thesis using assms Some by (simp add: put_profile_def)
  next
    case (Inr d')
    from put_transaction_keys [OF Inr] have
      ids: "map p_id (profiles d') = map p_id (profiles d)"
      and nxt: "nextProfileId d' = nextProfileId d"
      and own: "j_profileId ` set (projects d')
                 \<subseteq> insert (p_id t) (j_profileId ` set (projects d))"
      and mem: "p_id t \<in> set (map p_id (profiles d))"
      by simp_all
    have old: "j_profileId ` set (projects d) \<subseteq> set (map p_id (profiles d))"
      using assms by (simp add: keys_ok_def)
    have "insert (p_id t) (j_profileId ` set (projects d)) \<subseteq> set (map p_id (profiles d))"
      using mem old by (rule insert_subsetI)
    with own have "j_profileId ` set (projects d') \<subseteq> set (map p_id (profiles d))"
      by (rule subset_trans)
    then have 3: "set (map j_profileId (projects d')) \<subseteq> set (map p_id (profiles d'))"
      unfolding ids by simp
    have "keys_ok d'"
      using assms 3 unfolding keys_ok_def ids nxt by simp
    then show ?thesis
      using Some Inr by (simp add: put_profile_def)
  qed
qed

lemma keys_ok_delete_profile:
  assumes "keys_ok d"
  shows "keys_ok (snd (delete_profile d))"
proof -
  have "filter (\<lambda>r. j_profileId r \<notin> set (map p_id (profiles d))) (projects d) = []"
    using assms by (auto simp: keys_ok_def filter_empty_conv)
  then show ?thesis
    by (simp add: delete_profile_def profile_deleteMany_def Let_def keys_ok_def)
qed

lemma keys_ok_delete_project:
  assumes "keys_ok d"
  shows "keys_ok (snd (delete_project ident d))"
  using assms
  by (auto simp: delete_project_def project_delete_def keys_ok_def
           split: option.splits sum.splits if_splits)

lemma keys_ok_delete_work:
  assumes "keys_ok d"
  shows "keys_ok (snd (delete_work ident d))"
  using assms
  by (auto simp: delete_work_def work_delete_def keys_ok_def
           split: option.splits sum.splits if_splits)

lemma keys_ok_preserved:
  assumes "keys_ok d"
  shows "keys_ok (api_step node_env now op d)"
  using assms
  by (cases op)
     (simp_all add: route_post_profile_def route_put_profile_def route_delete_profile_def
        route_delete_project_def route_delete_work_def asyncHandler_def
        keys_ok_post keys_ok_put keys_ok_delete_profile keys_ok_delete_project
        keys_ok_delete_work split: sum.splits prod.splits)

subsection \<open>Email uniqueness\<close>

text \<open>
  C8. If no two stored profiles share an email, then none do after any one mutating
  operation of the API: POST, PUT and DELETE on /api/profile and the deletion of a
  project or of a work entry. POST refuses a stored email in the handler; PUT relies on
  the unique index, which makes the update fail and the transaction roll back.
\<close>

theorem emails_unique_preserved:
  assumes "emails_unique d"
  shows "emails_unique (api_step node_env now op d)"
proof (cases op)
  case (PostProfile b)
  have "emails_unique (snd (post_profile now b d))"
  proof (cases "profile_findFirst_email (b_email b) d")
    case (Some existing)
    then show ?thesis
      using assms by (simp add: post_profile_def)
  next
    case None
    let ?create = "profile_create now
        \<lparr>p_id = 0, p_name = b_name b, p_email = b_email b,
         p_education = b_education b, p_githubUrl = b_github_url b,
         p_linkedinUrl = b_linkedin_url b, p_portfolioUrl = b_portfolio_url b,
         p_createdAt = 0, p_updatedAt = 0\<rparr>
        (map_option (map (skill_row 0)) (b_skills b))
        (map_option (map (project_row 0)) (b_projects b))
        (map_option (map (work_row 0)) (b_workExperience b)) d"
    show ?thesis
    proof (cases ?create)
      case (Inl err)
      then show ?thesis
        using assms None by (simp add: post_profile_def)
    next
      case (Inr pd)
      obtain p d' where pd: "pd = (p, d')"
        by (cases pd)
      from profile_create_profiles [OF Inr [unfolded pd]]
      have "distinct (map p_email (profiles d'))"
        using assms by (auto simp: emails_unique_def)
      then show ?thesis
        using None Inr pd by (simp add: post_profile_def emails_unique_def)
    qed
  qed
  then show ?thesis
    using PostProfile by (simp add: route_post_profile_def asyncHandler_def split: sum.splits)
next
  case (PutProfile b)
  have "emails_unique (snd (put_profile now b d))"
  proof (cases "profile_findFirst_newest d")
    case None
    then show ?thesis
      using assms by (simp add: put_profile_def)
  next
    case (Some t)
    show ?thesis
    proof (cases "put_transaction now (p_id t) b d")
      case (Inl err)
      then show ?thesis
        using assms Some by (simp add: put_profile_def)
    next
      case (Inr d')
      from put_transaction_profiles [OF Inr] obtain d1 where
        upd: "profile_update now (p_id t) (b_name b) (b_email b) (b_education b)
                (b_github_url b) (b_linkedin_url b) (b_portfolio_url b) d = Inr d1"
        and same: "profiles d' = profiles d1"
        by blast
      from profile_update_profiles [OF upd] obtain before x after x' where
        "profiles d = before @ x # after" "profiles d1 = before @ x' # after"
        "p_email x' \<notin> set (map p_email (before @ after))"
        by auto
      then have "distinct (map p_email (profiles d'))"
        using assms same by (auto simp: emails_unique_def)
      then show ?thesis
        using Some Inr by (simp add: put_profile_def emails_unique_def)
    qed
  qed
  then show ?thesis
    using PutProfile by (simp add: route_put_profile_def asyncHandler_def split: sum.splits)
next
  case DeleteProfile
  then show ?thesis
    by (simp add: route_delete_profile_def asyncHandler_def delete_profile_def
          profile_deleteMany_def emails_unique_def Let_def split: sum.splits)
next
  case (DeleteProject i)
  then show ?thesis
    using assms
    by (auto simp: route_delete_project_def asyncHandler_def delete_project_def
          project_delete_def emails_unique_def split: sum.splits option.splits if_splits)
next
  case (DeleteWork i)
  then show ?thesis
    using assms
    by (auto simp: route_delete_work_def asyncHandler_def delete_work_def
          work_delete_def emails_unique_def split: sum.splits option.splits if_splits)
qed

theorem emails_unique_preserved_witness:
  "emails_unique two_profiles_db
   \<and> emails_unique
        (api_step ''production'' 3 (PutProfile (bob_update\<lparr>b_email := ''ada@example.com''\<rparr>))
           two_profiles_db)
   \<and> emails_unique (api_step ''production'' 3 (PutProfile bob_update) two_profiles_db)"
proof -
  have u: "emails_unique two_profiles_db"
    by (simp add: emails_unique_def two_profiles_db_def ada_row_def bob_row_def)
  show ?thesis
    using u emails_unique_preserved [OF u, of "''production''" 3
              "PutProfile (bob_update\<lparr>b_email := ''ada@example.com''\<rparr>)"]
            emails_unique_preserved [OF u, of "''production''" 3 "PutProfile bob_update"]
    by simp
qed

subsection \<open>PUT /api/profile replaces the children of the newest profile\<close>


lemma newest_some: "ps \<noteq> [] \<Longrightarrow> \<exists>t. newest ps = Some t"
  by (cases ps) (auto split: option.splits)











section \<open>Error answers of POST and DELETE on /api/profile\<close>

text \<open>
  An \<^verbatim>\<open>AppError\<close> carries its own code, so the test \<^verbatim>\<open>if (err.code)\<close> that is meant
  for the ORM's errors takes it too, and the \<^verbatim>\<open>default\<close> branch of the switch replaces
  it: whatever status and code a handler throws, the answer is 500 \<open>DATABASE_ERROR\<close>.
\<close>

lemma errorHandler_AppError_code:
  assumes "code \<noteq> []" "code \<notin> {''P2002'', ''P2025'', ''P2003''}"
  shows "errorHandler node_env (AppError message st (Some code)) =
     Some \<lparr>status = 500,
           body = JObj ([(''error'', JStr ''Database error''), (''code'', JStr ''DATABASE_ERROR'')]
                        @ (if node_env = ''development'' then [(''stack'', JStr [])] else []))\<rparr>"
  using assms by (simp add: errorHandler_def AppError_def js_falsy_def Let_def)

lemma post_profile_conflict_throws:
  assumes "b_email b \<in> set (map p_email (profiles d))"
  shows "post_profile now b d =
           (Inl (AppError ''Profile with this email already exists. Use PUT to update.'' 409
                   (Some ''PROFILE_EXISTS'')), d)"
proof -
  have "find (\<lambda>p. p_email p = b_email b) (profiles d) \<noteq> None"
    using assms by (auto simp: find_None_iff)
  then show ?thesis
    by (auto simp: post_profile_def profile_findFirst_email_def)
qed

lemma post_profile_conflict_response:
  assumes "b_email b \<in> set (map p_email (profiles d))"
  shows "route_post_profile node_env now b d =
     (Some \<lparr>status = 500,
           body = JObj ([(''error'', JStr ''Database error''), (''code'', JStr ''DATABASE_ERROR'')]
                        @ (if node_env = ''development'' then [(''stack'', JStr [])] else []))\<rparr>, d)"
  by (simp add: route_post_profile_def asyncHandler_def post_profile_conflict_throws [OF assms]
        errorHandler_AppError_code)

lemma post_profile_creates:
  assumes "b_email b \<notin> set (map p_email (profiles d))"
  shows "\<exists>p d'. route_post_profile node_env now b d =
            (Some \<lparr>status = 201,
                   body = JObj [(''message'', JStr ''Profile created successfully''),
                                (''profileId'', JNum (int (nextProfileId d)))]\<rparr>, d')
          \<and> profiles d' = profiles d @ [p] \<and> p_id p = nextProfileId d
          \<and> p_email p = b_email b \<and> p_name p = b_name b
          \<and> map (\<lambda>r. r\<lparr>s_id := 0\<rparr>) (drop (length (skills d)) (skills d'))
              = map (skill_row (nextProfileId d)) (case b_skills b of None \<Rightarrow> [] | Some xs \<Rightarrow> xs)
          \<and> take (length (skills d)) (skills d') = skills d"
proof -
  have "find (\<lambda>p. p_email p = b_email b) (profiles d) = None"
    using assms by (force simp: find_None_iff)
  moreover have "map (\<lambda>r. r\<lparr>s_id := 0\<rparr>)
          (map (\<lambda>(i, r). r\<lparr>s_id := i\<rparr>)
             (enumerate n (map (\<lambda>r. r\<lparr>s_profileId := pid\<rparr>) (map (skill_row 0) xs))))
        = map (skill_row pid) xs" for n pid xs
    by (induction xs arbitrary: n) (simp_all add: skill_row_def)
  ultimately show ?thesis
    using assms
    by (simp add: route_post_profile_def asyncHandler_def post_profile_def
          profile_findFirst_email_def profile_create_def Let_def
          skill_createMany_def project_createMany_def work_createMany_def
          split: option.splits)
qed

text \<open>
  C5 at a failing input. The store holds a profile with the email of the request; the
  handler throws its 409 \<open>PROFILE_EXISTS\<close> error and creates nothing, and the answer
  that leaves the error handler is 500 \<open>DATABASE_ERROR\<close>.
\<close>

theorem post_profile_duplicate_email_500:
  "b_email ada_body \<in> set (map p_email (profiles two_profiles_db))
   \<and> route_post_profile ''production'' 3 ada_body two_profiles_db =
     (Some \<lparr>status = 500,
            body = JObj [(''error'', JStr ''Database error''),
                         (''code'', JStr ''DATABASE_ERROR'')]\<rparr>, two_profiles_db)"
proof -
  have "b_email ada_body \<in> set (map p_email (profiles two_profiles_db))"
    by (simp add: ada_body_def two_profiles_db_def ada_row_def)
  then show ?thesis
    using post_profile_conflict_response [of ada_body two_profiles_db "''production''" 3]
    by simp
qed

lemma delete_profile_throws_404:
  "profiles d = [] \<Longrightarrow>
   fst (delete_profile d) = Inl (AppError ''Profile not found'' 404 (Some ''PROFILE_NOT_FOUND''))"
  by (simp add: delete_profile_def profile_deleteMany_def Let_def)

lemma delete_profile_removes_all:
  "profiles (snd (route_delete_profile node_env d)) = []"
  by (simp add: route_delete_profile_def asyncHandler_def delete_profile_def
        profile_deleteMany_def Let_def split: sum.splits)

lemma delete_profile_success:
  "profiles d \<noteq> [] \<Longrightarrow>
   fst (route_delete_profile node_env d) =
     Some \<lparr>status = 200, body = JObj [(''message'', JStr ''Profile deleted successfully'')]\<rparr>"
  by (simp add: route_delete_profile_def asyncHandler_def delete_profile_def
        profile_deleteMany_def message_response_def Let_def)

lemma delete_profile_cascade:
  "\<forall>r \<in> set (skills (snd (route_delete_profile node_env d))).
      s_profileId r \<notin> set (map p_id (profiles d))"
  by (simp add: route_delete_profile_def asyncHandler_def delete_profile_def
        profile_deleteMany_def Let_def split: sum.splits)

text \<open>
  C4 at a failing input. DELETE on a store without profiles affects zero rows; the
  handler throws its 404 \<open>PROFILE_NOT_FOUND\<close> error, and the answer that leaves the error
  handler is 500 \<open>DATABASE_ERROR\<close>.
\<close>

theorem delete_profile_empty_store_500:
  "route_delete_profile ''production'' empty_db =
     (Some \<lparr>status = 500,
            body = JObj [(''error'', JStr ''Database error''),
                         (''code'', JStr ''DATABASE_ERROR'')]\<rparr>, empty_db)"
  by (simp add: route_delete_profile_def asyncHandler_def delete_profile_def
        profile_deleteMany_def empty_db_def errorHandler_AppError_code Let_def)

section \<open>Properties of the search route\<close>

text \<open>
  The search answers 200 whenever \<open>q\<close> is not blank and \<open>limit\<close> and \<open>offset\<close> are
  absent or parse to numbers that fit 64 bits, the offset not negative.
\<close>

lemma search_queries_ok:
  assumes "0 \<le> k" and "fits_int64 t" and "fits_int64 k"
  shows "\<exists>xs. search_profiles needle (Some t) (Some k) d = Inr xs"
    and "\<exists>xs. search_projects needle (Some t) (Some k) d = Inr xs"
    and "\<exists>xs. search_skills needle (Some t) (Some k) d = Inr xs"
    and "\<exists>xs. search_work needle (Some t) (Some k) d = Inr xs"
  using assms
  by (simp_all add: search_profiles_def search_projects_def search_skills_def search_work_def
        find_page_def)

lemma bucket_ok:
  assumes "\<exists>xs. run = Inr xs"
  shows "\<exists>xs. bucket type category run = Inr xs"
  using assms by (auto simp: bucket_def)

lemma search_succeeds:
  assumes q: "\<not> js_falsy (q_q qs)" "js_trim (the (q_q qs)) \<noteq> []"
      and tk: "(case q_limit qs of None \<Rightarrow> Some 20 | Some l \<Rightarrow> parseInt l) = Some t"
      and sk: "(case q_offset qs of None \<Rightarrow> Some 0 | Some k \<Rightarrow> parseInt k) = Some k"
      and k: "0 \<le> k" "fits_int64 t" "fits_int64 k"
  shows "status (search qs d) = 200"
proof -
  let ?type = "case q_type qs of None \<Rightarrow> ''all'' | Some t \<Rightarrow> t"
  let ?needle = "js_trim (the (q_q qs))"
  obtain ps where ps: "bucket ?type ''profiles'' (search_profiles ?needle (Some t) (Some k) d) = Inr ps"
    using bucket_ok [OF search_queries_ok(1) [OF k]] by blast
  obtain pjs where pjs: "bucket ?type ''projects'' (search_projects ?needle (Some t) (Some k) d) = Inr pjs"
    using bucket_ok [OF search_queries_ok(2) [OF k]] by blast
  obtain sks where sks: "bucket ?type ''skills'' (search_skills ?needle (Some t) (Some k) d) = Inr sks"
    using bucket_ok [OF search_queries_ok(3) [OF k]] by blast
  obtain wks where wks: "bucket ?type ''work'' (search_work ?needle (Some t) (Some k) d) = Inr wks"
    using bucket_ok [OF search_queries_ok(4) [OF k]] by blast
  show ?thesis
    using q ps pjs sks wks
    by (simp add: search_def Let_def tk sk search_response_def)
qed

lemma bucket_run:
  "bucket t c run = Inr xs \<Longrightarrow> (if t = ''all'' \<or> t = c then run = Inr xs else xs = [])"
  by (auto simp: bucket_def)

lemma search_ok:
  assumes "status (search qs d) = 200"
  shows "\<exists>ps pjs sks wks.
           bucket (case q_type qs of None \<Rightarrow> ''all'' | Some t \<Rightarrow> t) ''profiles''
             (search_profiles (js_trim (the (q_q qs)))
                (case q_limit qs of None \<Rightarrow> Some 20 | Some l \<Rightarrow> parseInt l)
                (case q_offset qs of None \<Rightarrow> Some 0 | Some k \<Rightarrow> parseInt k) d) = Inr ps
         \<and> bucket (case q_type qs of None \<Rightarrow> ''all'' | Some t \<Rightarrow> t) ''projects''
             (search_projects (js_trim (the (q_q qs)))
                (case q_limit qs of None \<Rightarrow> Some 20 | Some l \<Rightarrow> parseInt l)
                (case q_offset qs of None \<Rightarrow> Some 0 | Some k \<Rightarrow> parseInt k) d) = Inr pjs
         \<and> bucket (case q_type qs of None \<Rightarrow> ''all'' | Some t \<Rightarrow> t) ''skills''
             (search_skills (js_trim (the (q_q qs)))
                (case q_limit qs of None \<Rightarrow> Some 20 | Some l \<Rightarrow> parseInt l)
                (case q_offset qs of None \<Rightarrow> Some 0 | Some k \<Rightarrow> parseInt k) d) = Inr sks
         \<and> bucket (case q_type qs of None \<Rightarrow> ''all'' | Some t \<Rightarrow> t) ''work''
             (search_work (js_trim (the (q_q qs)))
                (case q_limit qs of None \<Rightarrow> Some 20 | Some l \<Rightarrow> parseInt l)
                (case q_offset qs of None \<Rightarrow> Some 0 | Some k \<Rightarrow> parseInt k) d) = Inr wks
         \<and> result_bucket ''profiles'' (search qs d) = Some (JArr ps)
         \<and> result_bucket ''projects'' (search qs d) = Some (JArr pjs)
         \<and> result_bucket ''skills'' (search qs d) = Some (JArr sks)
         \<and> result_bucket ''workExperience'' (search qs d) = Some (JArr wks)"
proof -
  let ?type = "case q_type qs of None \<Rightarrow> ''all'' | Some t \<Rightarrow> t"
  let ?tk = "case q_limit qs of None \<Rightarrow> Some 20 | Some l \<Rightarrow> parseInt l"
  let ?sk = "case q_offset qs of None \<Rightarrow> Some 0 | Some k \<Rightarrow> parseInt k"
  let ?needle = "js_trim (the (q_q qs))"
  have nonblank: "\<not> (js_falsy (q_q qs) \<or> length ?needle = 0)"
    using assms by (auto simp: search_def search_required_response_def)
  obtain ps where ps: "bucket ?type ''profiles'' (search_profiles ?needle ?tk ?sk d) = Inr ps"
    using assms nonblank
    by (cases "bucket ?type ''profiles'' (search_profiles ?needle ?tk ?sk d)")
       (auto simp: search_def Let_def search_failed_response_def)
  obtain pjs where pjs: "bucket ?type ''projects'' (search_projects ?needle ?tk ?sk d) = Inr pjs"
    using assms nonblank ps
    by (cases "bucket ?type ''projects'' (search_projects ?needle ?tk ?sk d)")
       (auto simp: search_def Let_def search_failed_response_def)
  obtain sks where sks: "bucket ?type ''skills'' (search_skills ?needle ?tk ?sk d) = Inr sks"
    using assms nonblank ps pjs
    by (cases "bucket ?type ''skills'' (search_skills ?needle ?tk ?sk d)")
       (auto simp: search_def Let_def search_failed_response_def)
  obtain wks where wks: "bucket ?type ''work'' (search_work ?needle ?tk ?sk d) = Inr wks"
    using assms nonblank ps pjs sks
    by (cases "bucket ?type ''work'' (search_work ?needle ?tk ?sk d)")
       (auto simp: search_def Let_def search_failed_response_def)
  have "search qs d = search_response (the (q_q qs)) ?type ps pjs sks wks ?tk ?sk"
    using nonblank ps pjs sks wks by (simp add: search_def Let_def)
  then show ?thesis
    using ps pjs sks wks by (simp add: result_bucket_def search_response_def)
qed

text \<open>
  C6. GET /api/search answers 400 when \<open>q\<close> is missing or consists of white space only.
  In a 200 answer to a request with \<open>type=projects\<close> the buckets \<open>profiles\<close>, \<open>skills\<close>
  and \<open>workExperience\<close> are empty arrays. In general each of the four buckets of a 200
  answer holds the result of its query when \<open>type\<close> is \<open>all\<close> (the default) or names
  its category, and is the empty array otherwise.
\<close>

theorem search_blank_query_and_type:
  "(q_q qs = None \<or> js_trim (the (q_q qs)) = [] \<longrightarrow>
      search qs d =
        \<lparr>status = 400, body = JObj [(''error'', JStr ''Search query is required'')]\<rparr>)
   \<and> (q_type qs = Some ''projects'' \<and> status (search qs d) = 200 \<longrightarrow>
        result_bucket ''profiles'' (search qs d) = Some (JArr [])
      \<and> result_bucket ''skills'' (search qs d) = Some (JArr [])
      \<and> result_bucket ''workExperience'' (search qs d) = Some (JArr []))
   \<and> (status (search qs d) = 200 \<longrightarrow>
        (\<exists>ps pjs sks wks.
            result_bucket ''profiles'' (search qs d) = Some (JArr ps)
          \<and> result_bucket ''projects'' (search qs d) = Some (JArr pjs)
          \<and> result_bucket ''skills'' (search qs d) = Some (JArr sks)
          \<and> result_bucket ''workExperience'' (search qs d) = Some (JArr wks)
          \<and> (let type = (case q_type qs of None \<Rightarrow> ''all'' | Some t \<Rightarrow> t);
                  searchTerm = js_trim (the (q_q qs));
                  tk = (case q_limit qs of None \<Rightarrow> Some 20 | Some l \<Rightarrow> parseInt l);
                  sk = (case q_offset qs of None \<Rightarrow> Some 0 | Some k \<Rightarrow> parseInt k)
              in (if type = ''all'' \<or> type = ''profiles''
                  then search_profiles searchTerm tk sk d = Inr ps else ps = [])
               \<and> (if type = ''all'' \<or> type = ''projects''
                  then search_projects searchTerm tk sk d = Inr pjs else pjs = [])
               \<and> (if type = ''all'' \<or> type = ''skills''
                  then search_skills searchTerm tk sk d = Inr sks else sks = [])
               \<and> (if type = ''all'' \<or> type = ''work''
                  then search_work searchTerm tk sk d = Inr wks else wks = []))))"
proof (intro conjI impI)
  assume "q_q qs = None \<or> js_trim (the (q_q qs)) = []"
  then show "search qs d =
        \<lparr>status = 400, body = JObj [(''error'', JStr ''Search query is required'')]\<rparr>"
    by (auto simp: search_def js_falsy_def search_required_response_def)
next
  assume a: "q_type qs = Some ''projects'' \<and> status (search qs d) = 200"
  from search_ok [of qs d] a
  show "result_bucket ''profiles'' (search qs d) = Some (JArr [])"
    by (auto simp: bucket_def)
  from search_ok [of qs d] a
  show "result_bucket ''skills'' (search qs d) = Some (JArr [])"
    by (auto simp: bucket_def)
  from search_ok [of qs d] a
  show "result_bucket ''workExperience'' (search qs d) = Some (JArr [])"
    by (auto simp: bucket_def)
next
  assume "status (search qs d) = 200"
  from search_ok [OF this] obtain ps pjs sks wks where
    b: "bucket (case q_type qs of None \<Rightarrow> ''all'' | Some t \<Rightarrow> t) ''profiles''
             (search_profiles (js_trim (the (q_q qs)))
                (case q_limit qs of None \<Rightarrow> Some 20 | Some l \<Rightarrow> parseInt l)
                (case q_offset qs of None \<Rightarrow> Some 0 | Some k \<Rightarrow> parseInt k) d) = Inr ps"
       "bucket (case q_type qs of None \<Rightarrow> ''all'' | Some t \<Rightarrow> t) ''projects''
             (search_projects (js_trim (the (q_q qs)))
                (case q_limit qs of None \<Rightarrow> Some 20 | Some l \<Rightarrow> parseInt l)
                (case q_offset qs of None \<Rightarrow> Some 0 | Some k \<Rightarrow> parseInt k) d) = Inr pjs"
       "bucket (case q_type qs of None \<Rightarrow> ''all'' | Some t \<Rightarrow> t) ''skills''
             (search_skills (js_trim (the (q_q qs)))
                (case q_limit qs of None \<Rightarrow> Some 20 | Some l \<Rightarrow> parseInt l)
                (case q_offset qs of None \<Rightarrow> Some 0 | Some k \<Rightarrow> parseInt k) d) = Inr sks"
       "bucket (case q_type qs of None \<Rightarrow> ''all'' | Some t \<Rightarrow> t) ''work''
             (search_work (js_trim (the (q_q qs)))
                (case q_limit qs of None \<Rightarrow> Some 20 | Some l \<Rightarrow> parseInt l)
                (case q_offset qs of None \<Rightarrow> Some 0 | Some k \<Rightarrow> parseInt k) d) = Inr wks"
    and r: "result_bucket ''profiles'' (search qs d) = Some (JArr ps)"
       "result_bucket ''projects'' (search qs d) = Some (JArr pjs)"
       "result_bucket ''skills'' (search qs d) = Some (JArr sks)"
       "result_bucket ''workExperience'' (search qs d) = Some (JArr wks)"
    by blast
  have "(let type = (case q_type qs of None \<Rightarrow> ''all'' | Some t \<Rightarrow> t);
                  searchTerm = js_trim (the (q_q qs));
                  tk = (case q_limit qs of None \<Rightarrow> Some 20 | Some l \<Rightarrow> parseInt l);
                  sk = (case q_offset qs of None \<Rightarrow> Some 0 | Some k \<Rightarrow> parseInt k)
              in (if type = ''all'' \<or> type = ''profiles''
                  then search_profiles searchTerm tk sk d = Inr ps else ps = [])
               \<and> (if type = ''all'' \<or> type = ''projects''
                  then search_projects searchTerm tk sk d = Inr pjs else pjs = [])
               \<and> (if type = ''all'' \<or> type = ''skills''
                  then search_skills searchTerm tk sk d = Inr sks else sks = [])
               \<and> (if type = ''all'' \<or> type = ''work''
                  then search_work searchTerm tk sk d = Inr wks else wks = []))"
    unfolding Let_def by (intro conjI b [THEN bucket_run])
  then show "\<exists>ps pjs sks wks.
            result_bucket ''profiles'' (search qs d) = Some (JArr ps)
          \<and> result_bucket ''projects'' (search qs d) = Some (JArr pjs)
          \<and> result_bucket ''skills'' (search qs d) = Some (JArr sks)
          \<and> result_bucket ''workExperience'' (search qs d) = Some (JArr wks)
          \<and> (let type = (case q_type qs of None \<Rightarrow> ''all'' | Some t \<Rightarrow> t);
                  searchTerm = js_trim (the (q_q qs));
                  tk = (case q_limit qs of None \<Rightarrow> Some 20 | Some l \<Rightarrow> parseInt l);
                  sk = (case q_offset qs of None \<Rightarrow> Some 0 | Some k \<Rightarrow> parseInt k)
              in (if type = ''all'' \<or> type = ''profiles''
                  then search_profiles searchTerm tk sk d = Inr ps else ps = [])
               \<and> (if type = ''all'' \<or> type = ''projects''
                  then search_projects searchTerm tk sk d = Inr pjs else pjs = [])
               \<and> (if type = ''all'' \<or> type = ''skills''
                  then search_skills searchTerm tk sk d = Inr sks else sks = [])
               \<and> (if type = ''all'' \<or> type = ''work''
                  then search_work searchTerm tk sk d = Inr wks else wks = []))"
    using r by blast
qed

theorem search_blank_query_and_type_witness:
  "js_trim (the (q_q blank_search)) = []
   \<and> search blank_search two_profiles_db =
       \<lparr>status = 400, body = JObj [(''error'', JStr ''Search query is required'')]\<rparr>
   \<and> q_type projects_search = Some ''projects''
   \<and> status (search projects_search two_profiles_db) = 200
   \<and> result_bucket ''profiles'' (search projects_search two_profiles_db) = Some (JArr [])
   \<and> result_bucket ''skills'' (search projects_search two_profiles_db) = Some (JArr [])
   \<and> result_bucket ''workExperience'' (search projects_search two_profiles_db) = Some (JArr [])
   \<and> result_bucket ''projects'' (search projects_search two_profiles_db) =
       Some (JArr [JObj [(''id'', JNum 1), (''title'', JStr ''Compiler''),
                         (''description'', JStr ''A small compiler''), (''links'', JArr []),
                         (''created_at'', JNum 1)]])"
proof -
  have blank: "js_trim (the (q_q blank_search)) = []"
    by (simp add: blank_search_def js_trim_def is_space_def)
  have ok: "status (search projects_search two_profiles_db) = 200"
    by code_simp
  have pj: "result_bucket ''projects'' (search projects_search two_profiles_db) =
       Some (JArr [JObj [(''id'', JNum 1), (''title'', JStr ''Compiler''),
                         (''description'', JStr ''A small compiler''), (''links'', JArr []),
                         (''created_at'', JNum 1)]])"
    by code_simp
  have ty: "q_type projects_search = Some ''projects''"
    by (simp add: projects_search_def)
  show ?thesis
    using search_blank_query_and_type [of blank_search two_profiles_db]
          search_blank_query_and_type [of projects_search two_profiles_db]
          blank ok pj ty
    by simp
qed

section \<open>The shape of error bodies\<close>

lemma errorHandler_shape:
  assumes "errorHandler node_env err = Some r"
  shows "has_string_field ''error'' r \<and> has_string_field ''code'' r"
  using assms
  by (auto simp: errorHandler_def Let_def has_string_field_def split: if_splits)

lemma search_cases:
  assumes "search qs d \<noteq> search_required_response"
      and "search qs d \<noteq> search_failed_response"
  shows "\<exists>q t ps pjs sks wks tk sk. search qs d = search_response q t ps pjs sks wks tk sk"
proof -
  let ?type = "case q_type qs of None \<Rightarrow> ''all'' | Some t \<Rightarrow> t"
  let ?tk = "case q_limit qs of None \<Rightarrow> Some 20 | Some l \<Rightarrow> parseInt l"
  let ?sk = "case q_offset qs of None \<Rightarrow> Some 0 | Some k \<Rightarrow> parseInt k"
  let ?needle = "js_trim (the (q_q qs))"
  have nonblank: "\<not> (js_falsy (q_q qs) \<or> length ?needle = 0)"
    using assms(1) by (auto simp: search_def)
  obtain ps where ps: "bucket ?type ''profiles'' (search_profiles ?needle ?tk ?sk d) = Inr ps"
    using assms(2) nonblank
    by (cases "bucket ?type ''profiles'' (search_profiles ?needle ?tk ?sk d)")
       (auto simp: search_def Let_def)
  obtain pjs where pjs: "bucket ?type ''projects'' (search_projects ?needle ?tk ?sk d) = Inr pjs"
    using assms(2) nonblank ps
    by (cases "bucket ?type ''projects'' (search_projects ?needle ?tk ?sk d)")
       (auto simp: search_def Let_def)
  obtain sks where sks: "bucket ?type ''skills'' (search_skills ?needle ?tk ?sk d) = Inr sks"
    using assms(2) nonblank ps pjs
    by (cases "bucket ?type ''skills'' (search_skills ?needle ?tk ?sk d)")
       (auto simp: search_def Let_def)
  obtain wks where wks: "bucket ?type ''work'' (search_work ?needle ?tk ?sk d) = Inr wks"
    using assms(2) nonblank ps pjs sks
    by (cases "bucket ?type ''work'' (search_work ?needle ?tk ?sk d)")
       (auto simp: search_def Let_def)
  have "search qs d = search_response (the (q_q qs)) ?type ps pjs sks wks ?tk ?sk"
    using nonblank ps pjs sks wks by (simp add: search_def Let_def)
  then show ?thesis
    by blast
qed

lemma search_error_shape:
  assumes "status (search qs d) \<noteq> 200"
  shows "has_string_field ''error'' (search qs d) \<and> \<not> has_string_field ''code'' (search qs d)"
proof (cases "search qs d = search_required_response \<or> search qs d = search_failed_response")
  case True
  then show ?thesis
    by (auto simp: has_string_field_def search_required_response_def search_failed_response_def)
next
  case False
  then obtain q t ps pjs sks wks tk sk where
    "search qs d = search_response q t ps pjs sks wks tk sk"
    using search_cases [of qs d] by blast
  then show ?thesis
    using assms by (simp add: search_response_def)
qed

lemma login_error_shape:
  assumes "status (login compare sign b) \<noteq> 200"
  shows "has_string_field ''error'' (login compare sign b)
       \<and> has_string_field ''code'' (login compare sign b)"
  using assms
  by (auto simp: login_def has_string_field_def invalid_credentials_response_def
        login_error_response_def split: option.splits bool.splits if_splits)

text \<open>
  C9, as the code has it. An error body has a string \<open>error\<close> and a string \<open>code\<close> when
  it comes from \<^verbatim>\<open>errorHandler\<close>, from the validation middleware, from the
  authentication gate or from login. The search handler answers its own errors (400 for
  a blank query, 500 for a failed one) with a body that has the string \<open>error\<close> and no
  \<open>code\<close>.
\<close>

theorem error_body_shapes:
  "(errorHandler node_env err = Some r \<longrightarrow>
       has_string_field ''error'' r \<and> has_string_field ''code'' r)
   \<and> has_string_field ''error'' (validation_failed_response errors)
   \<and> has_string_field ''code'' (validation_failed_response errors)
   \<and> has_string_field ''error'' no_token_response
   \<and> has_string_field ''code'' no_token_response
   \<and> has_string_field ''error'' invalid_token_response
   \<and> has_string_field ''code'' invalid_token_response
   \<and> (status (login compare sign b) \<noteq> 200 \<longrightarrow>
         has_string_field ''error'' (login compare sign b)
       \<and> has_string_field ''code'' (login compare sign b))
   \<and> (status (search qs d) \<noteq> 200 \<longrightarrow>
         has_string_field ''error'' (search qs d)
       \<and> \<not> has_string_field ''code'' (search qs d))"
  using errorHandler_shape [of node_env err r] login_error_shape [of compare sign b]
        search_error_shape [of qs d]
  by (simp add: has_string_field_def validation_failed_response_def no_token_response_def
        invalid_token_response_def)

theorem error_body_shapes_witness:
  "errorHandler ''production'' (AppError ''Profile not found'' 404 (Some ''PROFILE_NOT_FOUND''))
     = Some \<lparr>status = 500,
             body = JObj [(''error'', JStr ''Database error''),
                          (''code'', JStr ''DATABASE_ERROR'')]\<rparr>
   \<and> has_string_field ''code''
        \<lparr>status = 500,
         body = JObj [(''error'', JStr ''Database error''), (''code'', JStr ''DATABASE_ERROR'')]\<rparr>
   \<and> status (login (\<lambda>p h. Some False) (\<lambda>c. None)
                \<lparr>lb_username = Some (JStr ''admin''), lb_password = None\<rparr>) = 400
   \<and> has_string_field ''code'' (login (\<lambda>p h. Some False) (\<lambda>c. None)
                \<lparr>lb_username = Some (JStr ''admin''), lb_password = None\<rparr>)
   \<and> status (search blank_search empty_db) = 400
   \<and> has_string_field ''error'' (search blank_search empty_db)
   \<and> \<not> has_string_field ''code'' (search blank_search empty_db)"
proof -
  have e: "errorHandler ''production'' (AppError ''Profile not found'' 404 (Some ''PROFILE_NOT_FOUND''))
     = Some \<lparr>status = 500,
             body = JObj [(''error'', JStr ''Database error''),
                          (''code'', JStr ''DATABASE_ERROR'')]\<rparr>"
    by (simp add: errorHandler_AppError_code)
  have l: "status (login (\<lambda>p h. Some False) (\<lambda>c. None)
                \<lparr>lb_username = Some (JStr ''admin''), lb_password = None\<rparr>) = 400"
    by (simp add: login_def js_not_def)
  have s: "status (search blank_search empty_db) = 400"
    by (simp add: search_def blank_search_def js_falsy_def js_trim_def is_space_def
          search_required_response_def)
  show ?thesis
    using error_body_shapes [of "''production''"
            "AppError ''Profile not found'' 404 (Some ''PROFILE_NOT_FOUND'')"
            "\<lparr>status = 500,
             body = JObj [(''error'', JStr ''Database error''),
                          (''code'', JStr ''DATABASE_ERROR'')]\<rparr>"
            "[]" "\<lambda>p h. Some False" "\<lambda>c. None"
            "\<lparr>lb_username = Some (JStr ''admin''), lb_password = None\<rparr>"
            blank_search empty_db] e l s
    by simp
qed

text \<open>
  C9 as written fails at a search with a blank query: the 400 body has no \<open>code\<close>
  field.
\<close>

theorem search_error_without_code_counterexample:
  "search blank_search empty_db =
     \<lparr>status = 400, body = JObj [(''error'', JStr ''Search query is required'')]\<rparr>
   \<and> json_field ''code'' (body (search blank_search empty_db)) = None
   \<and> \<not> has_string_field ''code'' (search blank_search empty_db)"
  by (simp add: search_def blank_search_def js_falsy_def js_trim_def is_space_def
        search_required_response_def has_string_field_def)

section \<open>Properties of GET /api/projects\<close>

subsection \<open>Doubles\<close>











subsection \<open>Validated parameters parse to numbers inside their bounds\<close>













subsection \<open>The page and its \<open>hasMore\<close> flag\<close>









end
